theory Spec2Isabelle
  imports Main
begin

section \<open>External IDs of settings 2.0 objects (internal/idutils/external\_id.go)\<close>

text \<open>
  Go strings are byte sequences and \<open>len\<close> counts bytes; a \<^typ>\<open>string\<close> is a list of
  8-bit characters, so \<^const>\<open>length\<close> counts the same thing.

  \<open>base64.StdEncoding.EncodeToString\<close> of the Go standard library: three input bytes give
  four characters of the standard alphabet; a last group of one or two bytes is padded
  with \<open>=\<close>.
\<close>

definition encodeStd :: string where
  "encodeStd = ''ABCDEFGHIJKLMNOPQRSTUVWXYZabcdefghijklmnopqrstuvwxyz0123456789+/''"

definition encode6 :: "nat \<Rightarrow> char" where
  "encode6 v = encodeStd ! (v mod 64)"

fun EncodeToString :: "string \<Rightarrow> string" where
  "EncodeToString [] = []"
| "EncodeToString [a] =
     (let val = of_char a * 65536 :: nat
      in [encode6 (val div 262144), encode6 (val div 4096), CHR ''='', CHR ''=''])"
| "EncodeToString [a, b] =
     (let val = of_char a * 65536 + of_char b * 256 :: nat
      in [encode6 (val div 262144), encode6 (val div 4096), encode6 (val div 64), CHR ''=''])"
| "EncodeToString (a # b # c # rest) =
     (let val = of_char a * 65536 + of_char b * 256 + of_char c :: nat
      in [encode6 (val div 262144), encode6 (val div 4096), encode6 (val div 64), encode6 val])
     @ EncodeToString rest"

definition prefix_monaco :: string where
  "prefix_monaco = ''monaco:''"

definition externalIDMaxLength :: nat where
  "externalIDMaxLength = 500"

text \<open>
  \<open>GenerateExternalID\<close>: the slice expression \<open>encodedID[encodedIDMaxLength:]\<close> drops the
  first \<open>encodedIDMaxLength\<close> bytes; it is in range because it is only evaluated when the
  encoding is longer than that.
\<close>

definition GenerateExternalID :: "string \<Rightarrow> string \<Rightarrow> string" where
  "GenerateExternalID schema ID =
     (let formattedID = schema @ ''$'' @ ID;
          encodedID = EncodeToString formattedID;
          encodedIDMaxLength = externalIDMaxLength - length prefix_monaco;
          encodedID' = (if length encodedID > encodedIDMaxLength
                        then drop encodedIDMaxLength encodedID else encodedID)
      in ''monaco:'' @ encodedID')"

section \<open>The deployment engine (package deploy)\<close>

subsection \<open>Data\<close>

record Coordinate =
  Project :: string
  Type :: string
  ConfigId :: string

text \<open>
  A resolved property is a Go \<open>interface{}\<close>. The engine compares it with the string
  \<open>""\<close> and prints it with \<open>fmt.Sprint\<close>, nothing else: a value is either a string, or
  a value of another dynamic type, given by what \<open>fmt.Sprint\<close> prints for it.
\<close>

datatype prop_value = StringValue string | OtherValue string

fun Sprint :: "prop_value \<Rightarrow> string" where
  "Sprint (StringValue s) = s"
| "Sprint (OtherValue printed) = printed"

type_synonym Properties = "string \<rightharpoonup> prop_value"

datatype Parameter = ValueParameter prop_value | OtherParameter string

record Template =
  TemplateId :: string
  TemplateName :: string
  TemplateContent :: string

text \<open>\<open>config.Type\<close>; the field of \<open>Config\<close> that holds it is named \<open>ConfigType\<close> here.\<close>

record ConfigType =
  Api :: string
  SchemaId :: string
  SchemaVersion :: string
  EntitiesType :: string

record Config =
  Template :: Template
  Coordinate :: Coordinate
  ConfigType :: ConfigType
  Parameters :: "string \<rightharpoonup> Parameter"
  Skip :: bool
  OriginObjectId :: string

text \<open>\<open>parameter.ResolvedEntity\<close>, and its zero value \<open>parameter.ResolvedEntity{}\<close>.\<close>

record ResolvedEntity =
  EntityName :: string
  EntityCoordinate :: Coordinate
  Properties :: Properties
  EntitySkip :: bool

definition zeroCoordinate :: Coordinate where
  "zeroCoordinate = \<lparr>Project = [], Type = [], ConfigId = []\<rparr>"

definition zeroEntity :: ResolvedEntity where
  "zeroEntity = \<lparr>EntityName = [], EntityCoordinate = zeroCoordinate,
                  Properties = Map.empty, EntitySkip = False\<rparr>"

text \<open>The methods of the \<open>api.Api\<close> interface that the engine reads.\<close>

record Api =
  GetId :: string
  IsNonUniqueNameApi :: bool
  DeprecatedBy :: string

type_synonym ApiMap = "string \<rightharpoonup> Api"

record DynatraceEntity =
  EntityId :: string
  Name :: string

record SettingsObject =
  so_Id :: string
  so_SchemaId :: string
  so_SchemaVersion :: string
  so_Scope :: string
  so_Content :: string
  so_OriginObjectId :: string

text \<open>
  Errors are values. \<open>Foreign\<close> is an error made outside this package (parameter
  resolution, name extraction, rendering), given by its message; \<open>ConfigDeployErr\<close> is
  \<open>newConfigDeployErr(conf, msg)\<close>; \<open>FailedTo verb coordinate err\<close> is
  \<open>fmt.Errorf("failed to %s config %s: %w", verb, coordinate, err)\<close>.
\<close>

datatype error =
    UnknownApi string
  | ConfigDeployErr Config string
  | ScopeNotFound
  | ScopeEmpty
  | Foreign string
  | FailedTo string Coordinate error

text \<open>
  Modelled from the spec: the reserved parameter names of package \<open>config\<close>
  (\<open>config.IdParameter\<close>, \<open>config.NameParameter\<close>, \<open>config.ScopeParameter\<close>), whose
  declarations are not part of the sources at hand.
\<close>

definition IdParameter :: string where "IdParameter = ''id''"
definition NameParameter :: string where "NameParameter = ''name''"
definition ScopeParameter :: string where "ScopeParameter = ''scope''"

subsection \<open>The entity map\<close>

text \<open>
  Modelled from the spec: \<open>EntityMap\<close> with \<open>NewEntityMap\<close>, \<open>PutResolved\<close>, \<open>Resolved\<close> and
  \<open>Known\<close>, which the engine calls and whose code is not part of the sources at hand. The
  spec: a mapping from Coordinate to ResolvedEntity built during a single environment's
  deployment, which also tracks, per API type, the set of already-used names to detect
  duplicates.
\<close>

record EntityMap =
  resolvedEntities :: "Coordinate \<rightharpoonup> ResolvedEntity"
  knownEntityNames :: "string \<Rightarrow> string set"

definition NewEntityMap :: "ApiMap \<Rightarrow> EntityMap" where
  "NewEntityMap apis = \<lparr>resolvedEntities = Map.empty, knownEntityNames = (\<lambda>_. {})\<rparr>"

definition PutResolved :: "Coordinate \<Rightarrow> ResolvedEntity \<Rightarrow> EntityMap \<Rightarrow> EntityMap" where
  "PutResolved coordinate resolvedEntity m =
     \<lparr>resolvedEntities = (resolvedEntities m)(coordinate \<mapsto> resolvedEntity),
      knownEntityNames = (knownEntityNames m)
        (Type coordinate := insert (EntityName resolvedEntity)
                              (knownEntityNames m (Type coordinate)))\<rparr>"

definition Resolved :: "EntityMap \<Rightarrow> (Coordinate \<rightharpoonup> ResolvedEntity)" where
  "Resolved m = resolvedEntities m"

definition Known :: "EntityMap \<Rightarrow> string \<Rightarrow> string \<Rightarrow> bool" where
  "Known m entityType name = (name \<in> knownEntityNames m entityType)"

subsection \<open>Collaborators and the tenant client\<close>

text \<open>
  Functions the engine calls whose code lives in other packages; they are taken as
  given. \<open>resolveProperties\<close> returns the properties and the list of resolution errors,
  \<open>extractConfigName\<close> and \<open>Render\<close> return an error or a string.
\<close>

record deps =
  resolveProperties :: "Config \<Rightarrow> (Coordinate \<rightharpoonup> ResolvedEntity) \<Rightarrow> Properties \<times> error list"
  extractConfigName :: "Config \<Rightarrow> Properties \<Rightarrow> error + string"
  Render :: "Config \<Rightarrow> Properties \<Rightarrow> error + string"
  IsEntities :: "ConfigType \<Rightarrow> bool"
  IsSettings :: "ConfigType \<Rightarrow> bool"
  IsUuid :: "string \<Rightarrow> bool"
  IsMeId :: "string \<Rightarrow> bool"
  GenerateUuidFromConfigId :: "string \<Rightarrow> string \<Rightarrow> string"

text \<open>
  A call of the tenant client, with its arguments. A client answers a call with an error
  (its message) or an entity; the answer may depend on the calls made before. Every
  call is appended to the trace of calls.
\<close>

datatype client_call =
    UpsertConfigByName Api string string
  | UpsertConfigByNonUniqueNameAndId Api string string string
  | UpsertSettings SettingsObject

type_synonym Client = "client_call list \<Rightarrow> client_call \<Rightarrow> string + DynatraceEntity"

definition invoke :: "Client \<Rightarrow> client_call list \<Rightarrow> client_call
    \<Rightarrow> (string + DynatraceEntity) \<times> client_call list" where
  "invoke client calls c = (client calls c, calls @ [c])"

subsection \<open>Deploying one config\<close>

definition upsertNonUniqueNameConfig :: "deps \<Rightarrow> Client \<Rightarrow> client_call list \<Rightarrow> Api \<Rightarrow> Config
    \<Rightarrow> string \<Rightarrow> string \<Rightarrow> (string + DynatraceEntity) \<times> client_call list" where
  "upsertNonUniqueNameConfig K client calls apiToDeploy conf configName renderedConfig =
     (let configId = ConfigId (Coordinate conf);
          projectId = Project (Coordinate conf);
          isUuidOrMeId = (IsUuid K configId \<or> IsMeId K configId);
          entityUuid = (if \<not> isUuidOrMeId then GenerateUuidFromConfigId K projectId configId
                        else configId)
      in invoke client calls
           (UpsertConfigByNonUniqueNameAndId apiToDeploy entityUuid configName renderedConfig))"

text \<open>
  \<open>deployConfig\<close> and \<open>deploySetting\<close> return the entity, the errors and the trace of calls.
  Where they return errors the entity is the zero value. The warning about a deprecated
  API is a log line only and is left out.
\<close>

definition duplicatedName :: "string \<Rightarrow> string" where
  "duplicatedName configName = ''duplicated config name `'' @ configName @ ''`''"

definition deployConfig :: "deps \<Rightarrow> Client \<Rightarrow> client_call list \<Rightarrow> ApiMap \<Rightarrow> EntityMap \<Rightarrow> Config
    \<Rightarrow> (ResolvedEntity \<times> error list) \<times> client_call list" where
  "deployConfig K client calls apis entityMap conf =
     (case apis (Type (Coordinate conf)) of
        None \<Rightarrow> ((zeroEntity, [UnknownApi (Api (ConfigType conf))]), calls)
      | Some apiToDeploy \<Rightarrow>
          (case resolveProperties K conf (Resolved entityMap) of
             (properties, errors) \<Rightarrow>
               if length errors > 0 then ((zeroEntity, errors), calls)
               else
                 (let errors' =
                        (case extractConfigName K conf properties of
                           Inl err \<Rightarrow> errors @ [err]
                         | Inr configName \<Rightarrow>
                             if Known entityMap (GetId apiToDeploy) configName
                                \<and> \<not> IsNonUniqueNameApi apiToDeploy
                             then errors @ [ConfigDeployErr conf (duplicatedName configName)]
                             else errors);
                      configName =
                        (case extractConfigName K conf properties of
                           Inl err \<Rightarrow> [] | Inr configName \<Rightarrow> configName)
                  in if length errors' > 0 then ((zeroEntity, errors'), calls)
                     else
                       (case Render K conf properties of
                          Inl err \<Rightarrow> ((zeroEntity, [err]), calls)
                        | Inr renderedConfig \<Rightarrow>
                            (case (if IsNonUniqueNameApi apiToDeploy
                                   then upsertNonUniqueNameConfig K client calls apiToDeploy
                                          conf configName renderedConfig
                                   else invoke client calls
                                          (UpsertConfigByName apiToDeploy configName
                                             renderedConfig)) of
                               (Inl msg, calls') \<Rightarrow>
                                 ((zeroEntity, [ConfigDeployErr conf msg]), calls')
                             | (Inr entity, calls') \<Rightarrow>
                                 ((\<lparr>EntityName = Name entity,
                                    EntityCoordinate = Coordinate conf,
                                    Properties = properties
                                      (IdParameter \<mapsto> StringValue (EntityId entity),
                                       NameParameter \<mapsto> StringValue (Name entity)),
                                    EntitySkip = False\<rparr>, []), calls'))))))"

definition extractScope :: "Properties \<Rightarrow> error + string" where
  "extractScope properties =
     (case properties ScopeParameter of
        None \<Rightarrow> Inl ScopeNotFound
      | Some scope \<Rightarrow> if scope = StringValue [] then Inl ScopeEmpty else Inr (Sprint scope))"

definition deploySetting :: "deps \<Rightarrow> Client \<Rightarrow> client_call list \<Rightarrow> EntityMap \<Rightarrow> Config
    \<Rightarrow> (ResolvedEntity \<times> error list) \<times> client_call list" where
  "deploySetting K settingsClient calls entityMap c =
     (case resolveProperties K c (Resolved entityMap) of
        (properties, errors) \<Rightarrow>
          if length errors > 0 then ((zeroEntity, errors), calls)
          else
            (case extractScope properties of
               Inl err \<Rightarrow> ((zeroEntity, [err]), calls)
             | Inr scope \<Rightarrow>
                 (case Render K c properties of
                    Inl err \<Rightarrow> ((zeroEntity, [err]), calls)
                  | Inr renderedConfig \<Rightarrow>
                      (case invoke settingsClient calls
                              (UpsertSettings
                                 \<lparr>so_Id = ConfigId (Coordinate c),
                                  so_SchemaId = SchemaId (ConfigType c),
                                  so_SchemaVersion = SchemaVersion (ConfigType c),
                                  so_Scope = scope,
                                  so_Content = renderedConfig,
                                  so_OriginObjectId = OriginObjectId c\<rparr>) of
                         (Inl msg, calls') \<Rightarrow> ((zeroEntity, [ConfigDeployErr c msg]), calls')
                       | (Inr entity, calls') \<Rightarrow>
                           ((\<lparr>EntityName = Name entity,
                              EntityCoordinate = Coordinate c,
                              Properties = properties
                                (IdParameter \<mapsto> StringValue (EntityId entity),
                                 NameParameter \<mapsto> StringValue (Name entity)),
                              EntitySkip = False\<rparr>, []), calls')))))"

subsection \<open>The deployment loop\<close>

record DeployConfigsOptions =
  ContinueOnErr :: bool
  DryRun :: bool

definition getWordsForLogging :: "bool \<Rightarrow> string \<times> string" where
  "getWordsForLogging isDryRun =
     (if isDryRun then (''Validating'', ''validate'') else (''Deploying'', ''deploy''))"

text \<open>
  The state of a run: the entity map, the errors collected so far, the trace of client
  calls, and the Info lines DeployConfigs has logged (one per config it starts on).
\<close>

datatype log_line = LogSkipping Coordinate | LogAction string Coordinate

fun logged :: "log_line \<Rightarrow> Coordinate" where
  "logged (LogSkipping c) = c"
| "logged (LogAction a c) = c"

record deploy_state =
  entityMap :: EntityMap
  errors :: "error list"
  calls :: "client_call list"
  infoLog :: "log_line list"

datatype flow = Continue | Return

text \<open>
  The switch on the config's type: entities are not deployable and leave the entity and
  the errors at their zero values.
\<close>

definition deployByType :: "deps \<Rightarrow> Client \<Rightarrow> ApiMap \<Rightarrow> deploy_state \<Rightarrow> Config
    \<Rightarrow> (ResolvedEntity \<times> error list) \<times> client_call list" where
  "deployByType K client apis st c =
     (if IsEntities K (ConfigType c) then ((zeroEntity, []), calls st)
      else if IsSettings K (ConfigType c) then deploySetting K client (calls st) (entityMap st) c
      else deployConfig K client (calls st) apis (entityMap st) c)"

text \<open>
  The body of the loop over \<open>sortedConfigs\<close>, for one config. \<open>deployConfig\<close> and
  \<open>deploySetting\<close> return either \<open>nil\<close> or a list with at least one error, so the test
  \<open>deploymentErrors != nil\<close> is the test for a non-empty list.
\<close>

definition deployStep :: "deps \<Rightarrow> Client \<Rightarrow> ApiMap \<Rightarrow> DeployConfigsOptions \<Rightarrow> deploy_state
    \<Rightarrow> Config \<Rightarrow> flow \<times> deploy_state" where
  "deployStep K client apis opts st c =
     (if Skip c then
        (Continue,
         st\<lparr>entityMap := PutResolved (Coordinate c)
               \<lparr>EntityName = ConfigId (Coordinate c), EntityCoordinate = Coordinate c,
                Properties = Map.empty, EntitySkip = True\<rparr> (entityMap st),
            infoLog := infoLog st @ [LogSkipping (Coordinate c)]\<rparr>)
      else
        (case getWordsForLogging (DryRun opts) of
           (logAction, logVerb) \<Rightarrow>
             (case deployByType K client apis st c of
                ((entity, deploymentErrors), calls') \<Rightarrow>
                  (let st1 = st\<lparr>calls := calls',
                                infoLog := infoLog st @ [LogAction logAction (Coordinate c)]\<rparr>;
                       st2 = (if deploymentErrors \<noteq> []
                              then st1\<lparr>errors := errors st1
                                     @ map (FailedTo logVerb (Coordinate c)) deploymentErrors\<rparr>
                              else st1)
                   in if deploymentErrors \<noteq> [] \<and> \<not> ContinueOnErr opts \<and> \<not> DryRun opts
                      then (Return, st2)
                      else (Continue,
                            st2\<lparr>entityMap := PutResolved (EntityCoordinate entity) entity
                                                (entityMap st2)\<rparr>)))))"

fun deployLoop :: "deps \<Rightarrow> Client \<Rightarrow> ApiMap \<Rightarrow> DeployConfigsOptions \<Rightarrow> deploy_state
    \<Rightarrow> Config list \<Rightarrow> deploy_state" where
  "deployLoop K client apis opts st [] = st"
| "deployLoop K client apis opts st (c # cs) =
     (case deployStep K client apis opts st c of
        (Return, st') \<Rightarrow> st'
      | (Continue, st') \<Rightarrow> deployLoop K client apis opts st' cs)"

definition initialState :: "ApiMap \<Rightarrow> deploy_state" where
  "initialState apis =
     \<lparr>entityMap = NewEntityMap apis, errors = [], calls = [], infoLog = []\<rparr>"

text \<open>
  \<open>runDeployConfigs\<close> is the run of DeployConfigs with everything it did; DeployConfigs
  returns the errors.
\<close>

definition runDeployConfigs :: "deps \<Rightarrow> Client \<Rightarrow> ApiMap \<Rightarrow> Config list \<Rightarrow> DeployConfigsOptions
    \<Rightarrow> deploy_state" where
  "runDeployConfigs K client apis sortedConfigs opts =
     deployLoop K client apis opts (initialState apis) sortedConfigs"

definition DeployConfigs :: "deps \<Rightarrow> Client \<Rightarrow> ApiMap \<Rightarrow> Config list \<Rightarrow> DeployConfigsOptions
    \<Rightarrow> error list" where
  "DeployConfigs K client apis sortedConfigs opts =
     errors (runDeployConfigs K client apis sortedConfigs opts)"

section \<open>The settings download engine (pkg/download/settings)\<close>

record DownloadSettingsObject =
  dl_ObjectId :: string
  dl_Value :: string
  dl_SchemaId :: string
  dl_SchemaVersion :: string
  dl_Scope :: string

text \<open>
  The library functions the conversion calls: \<open>json.Unmarshal\<close> into a JSON object (of type
  \<open>'j\<close>; \<open>None\<close> is a parse error), \<open>json.MarshalIndent\<close> (\<open>None\<close> is an error) and
  \<open>idutils.GenerateUuidFromName\<close>.
\<close>

record 'j codec =
  Unmarshal :: "string \<Rightarrow> 'j option"
  MarshalIndent :: "string \<Rightarrow> string option"
  GenerateUuidFromName :: "string \<Rightarrow> string"

text \<open>
  The Downloader: \<open>d_client\<close> is \<open>d.client.ListSettings\<close> (an error message or the objects
  of the schema, in listing order), \<open>d_filters\<close> is
  \<open>d.filters.Get(schemaId).ShouldDiscard(json)\<close>.
\<close>

record 'j Downloader =
  d_client :: "string \<Rightarrow> string + DownloadSettingsObject list"
  d_filters :: "string \<Rightarrow> 'j \<Rightarrow> bool \<times> string"

definition NewDownloadTemplate :: "string \<Rightarrow> string \<Rightarrow> string \<Rightarrow> Template" where
  "NewDownloadTemplate ident name content =
     \<lparr>TemplateId = ident, TemplateName = name, TemplateContent = content\<rparr>"

text \<open>The config built from one downloaded object (the tail of the loop body).\<close>

definition convertObject :: "'j codec \<Rightarrow> string \<Rightarrow> DownloadSettingsObject \<Rightarrow> Config" where
  "convertObject J projectName obj =
     (let content = (case MarshalIndent J (dl_Value obj) of
                       Some bytes \<Rightarrow> bytes | None \<Rightarrow> dl_Value obj);
          configId = GenerateUuidFromName J (dl_ObjectId obj)
      in \<lparr>Template = NewDownloadTemplate configId configId content,
          Coordinate = \<lparr>Project = projectName, Type = dl_SchemaId obj, ConfigId = configId\<rparr>,
          ConfigType = \<lparr>Api = [], SchemaId = dl_SchemaId obj,
                        SchemaVersion = dl_SchemaVersion obj, EntitiesType = []\<rparr>,
          Parameters = [NameParameter \<mapsto> ValueParameter (StringValue configId),
                        ScopeParameter \<mapsto> ValueParameter (StringValue (dl_Scope obj))],
          Skip = False,
          OriginObjectId = dl_ObjectId obj\<rparr>)"

fun convertLoop :: "'j codec \<Rightarrow> 'j Downloader \<Rightarrow> string \<Rightarrow> Config list
    \<Rightarrow> DownloadSettingsObject list \<Rightarrow> Config list" where
  "convertLoop J d projectName result [] = result"
| "convertLoop J d projectName result (obj # objects) =
     (case Unmarshal J (dl_Value obj) of
        None \<Rightarrow> result
      | Some contentUnmarshalled \<Rightarrow>
          if fst (d_filters d (dl_SchemaId obj) contentUnmarshalled)
          then convertLoop J d projectName result objects
          else convertLoop J d projectName (result @ [convertObject J projectName obj]) objects)"

definition convertAllObjects :: "'j codec \<Rightarrow> 'j Downloader \<Rightarrow> DownloadSettingsObject list
    \<Rightarrow> string \<Rightarrow> Config list" where
  "convertAllObjects J d objects projectName = convertLoop J d projectName [] objects"

text \<open>
  \<open>download\<close> starts one goroutine per schema and waits for all of them. A goroutine
  writes at most the entry of its own schema, under the mutex, and what it writes is
  a function of the schema (the client's answer is taken to depend on the schema only),
  so the map that results does not depend on the schedule: the goroutines are run here
  one after the other, in the order of the list.
\<close>

definition downloadSchema :: "'j codec \<Rightarrow> 'j Downloader \<Rightarrow> string
    \<Rightarrow> (string \<rightharpoonup> Config list) \<Rightarrow> string \<Rightarrow> (string \<rightharpoonup> Config list)" where
  "downloadSchema J d projectName results s =
     (case d_client d s of
        Inl err \<Rightarrow> results
      | Inr objects \<Rightarrow>
          if length objects = 0 then results
          else results(s \<mapsto> convertAllObjects J d objects projectName))"

fun downloadLoop :: "'j codec \<Rightarrow> 'j Downloader \<Rightarrow> string \<Rightarrow> (string \<rightharpoonup> Config list)
    \<Rightarrow> string list \<Rightarrow> (string \<rightharpoonup> Config list)" where
  "downloadLoop J d projectName results [] = results"
| "downloadLoop J d projectName results (s # schemas) =
     downloadLoop J d projectName (downloadSchema J d projectName results s) schemas"

definition download :: "'j codec \<Rightarrow> 'j Downloader \<Rightarrow> string list \<Rightarrow> string
    \<Rightarrow> (string \<rightharpoonup> Config list)" where
  "download J d schemas projectName = downloadLoop J d projectName Map.empty schemas"

section \<open>The delete command (cmd/monaco/delete)\<close>

text \<open>
  \<open>manifest.Environments\<close> is a Go map from environment name to definition; it is a list
  of pairs here, \<open>len\<close> is its length and \<open>maps.Values\<close> its second components (Go leaves
  their order open).
\<close>

record EnvironmentDefinition =
  envName :: string
  envGroup :: string

type_synonym Environments = "(string \<times> EnvironmentDefinition) list"

record Manifest =
  Environments :: Environments

datatype delete_error =
    AbsolutePathError string error
  | LoadingManifestError
  | ParsingDeleteFileError "error list"
  | NoEnvironmentsInGroup string
  | FailedToLoadEnvironments error
  | DeletionErrors nat

text \<open>
  What Delete calls outside its file: \<open>filepath.Abs\<close> after \<open>filepath.Clean\<close>,
  \<open>strings.ReplaceAll\<close>, the manifest loader, the loader of the delete file (entries of
  type \<open>'d\<close>), the two filters of \<open>manifest.Environments\<close>, and the deletion for one
  environment (client creation and \<open>delete.DeleteConfigs\<close>), which returns its errors.
\<close>

record 'd delete_deps =
  AbsClean :: "string \<Rightarrow> string \<times> error option"
  ReplaceAll :: "string \<Rightarrow> string \<Rightarrow> string \<Rightarrow> string"
  LoadManifest :: "string \<Rightarrow> Manifest \<times> error list"
  LoadEntriesToDelete :: "string \<Rightarrow> string \<Rightarrow> 'd \<times> error list"
  FilterByGroup :: "Environments \<Rightarrow> string \<Rightarrow> Environments"
  FilterByNames :: "Environments \<Rightarrow> string list \<Rightarrow> error + Environments"
  deleteConfigForEnvironment :: "EnvironmentDefinition \<Rightarrow> 'd \<Rightarrow> error list"

definition deleteConfigs :: "'d delete_deps \<Rightarrow> EnvironmentDefinition list \<Rightarrow> 'd \<Rightarrow> error list" where
  "deleteConfigs D environments entriesToDelete =
     concat (map (\<lambda>env. deleteConfigForEnvironment D env entriesToDelete) environments)"

text \<open>
  The selection of the environments in Delete (from \<open>environments := manifest.Environments\<close>
  to the filter by names): the environments to act on, or the error Delete returns.
\<close>

definition selectEnvironments :: "'d delete_deps \<Rightarrow> Manifest \<Rightarrow> string list \<Rightarrow> string
    \<Rightarrow> delete_error + Environments" where
  "selectEnvironments D manifest environmentNames environmentGroup =
     (let environments = Environments manifest;
          environments1 = (if environmentGroup \<noteq> []
                           then FilterByGroup D environments environmentGroup
                           else environments)
      in if environmentGroup \<noteq> [] \<and> length environments1 = 0
         then Inl (NoEnvironmentsInGroup environmentGroup)
         else if length environmentNames > 0
         then (case FilterByNames D (Environments manifest) environmentNames of
                 Inl err \<Rightarrow> Inl (FailedToLoadEnvironments err)
               | Inr environments2 \<Rightarrow> Inr environments2)
         else Inr environments1)"

text \<open>
  Delete returns an error or nil; the first component of the result is the list of
  environments it has run the deletion for (none when it returns before).
\<close>

definition Delete :: "'d delete_deps \<Rightarrow> string \<Rightarrow> string \<Rightarrow> string list \<Rightarrow> string
    \<Rightarrow> EnvironmentDefinition list \<times> delete_error option" where
  "Delete D deploymentManifestPath deletePath environmentNames environmentGroup =
     (let (deploymentManifestPath', manifestErr) = AbsClean D deploymentManifestPath;
          (deletePath', deleteErr) = AbsClean D deletePath;
          deleteFileWorkingDir = ReplaceAll D deletePath' ''delete.yaml'' [];
          deleteFile = ''delete.yaml''
      in case manifestErr of
           Some e \<Rightarrow> ([], Some (AbsolutePathError deploymentManifestPath' e))
         | None \<Rightarrow>
             (case deleteErr of
                Some e \<Rightarrow> ([], Some (AbsolutePathError deletePath' e))
              | None \<Rightarrow>
                  (let (manifest, manifestLoadError) = LoadManifest D deploymentManifestPath'
                   in if manifestLoadError \<noteq> [] then ([], Some LoadingManifestError)
                      else
                        (let (entriesToDelete, errs) =
                               LoadEntriesToDelete D deleteFileWorkingDir deleteFile
                         in if errs \<noteq> [] then ([], Some (ParsingDeleteFileError errs))
                            else
                              (case selectEnvironments D manifest environmentNames
                                      environmentGroup of
                                 Inl err \<Rightarrow> ([], Some err)
                               | Inr environments \<Rightarrow>
                                   (let deleteErrors = deleteConfigs D (map snd environments)
                                                         entriesToDelete
                                    in (map snd environments,
                                        if length deleteErrors > 0
                                        then Some (DeletionErrors (length deleteErrors))
                                        else None)))))))"

section \<open>A small project and tenant\<close>

text \<open>
  Concrete collaborators, clients and configs, on which the statements below are
  evaluated. Resolution takes the literal parameters, the name is the string property
  \<open>name\<close>, rendering returns the template's content.
\<close>

definition exResolve :: "Config \<Rightarrow> (Coordinate \<rightharpoonup> ResolvedEntity) \<Rightarrow> Properties \<times> error list" where
  "exResolve c resolved =
     ((\<lambda>k. case Parameters c k of Some (ValueParameter v) \<Rightarrow> Some v | _ \<Rightarrow> None), [])"

definition exName :: "Config \<Rightarrow> Properties \<Rightarrow> error + string" where
  "exName c properties =
     (case properties NameParameter of
        Some (StringValue n) \<Rightarrow> Inr n | _ \<Rightarrow> Inl (Foreign ''missing name''))"

definition exDeps :: deps where
  "exDeps = \<lparr>resolveProperties = exResolve,
             extractConfigName = exName,
             Render = (\<lambda>c properties. Inr (TemplateContent (Template c))),
             IsEntities = (\<lambda>t. EntitiesType t \<noteq> []),
             IsSettings = (\<lambda>t. SchemaId t \<noteq> []),
             IsUuid = (\<lambda>s. length s = 36),
             IsMeId = (\<lambda>s. False),
             GenerateUuidFromConfigId = (\<lambda>projectId configId. ''uuid:'' @ projectId @ ''/'' @ configId)\<rparr>"

definition exClient :: Client where
  "exClient history c =
     (case c of
        UpsertConfigByName a name payload \<Rightarrow> Inr \<lparr>EntityId = ''id-of-'' @ name, Name = name\<rparr>
      | UpsertConfigByNonUniqueNameAndId a ident name payload \<Rightarrow> Inr \<lparr>EntityId = ident, Name = name\<rparr>
      | UpsertSettings obj \<Rightarrow> Inr \<lparr>EntityId = ''object-'' @ so_Id obj, Name = so_Id obj\<rparr>)"

definition exFailingClient :: Client where
  "exFailingClient history c = Inl ''HTTP 500''"

definition exApis :: ApiMap where
  "exApis = [''dashboard'' \<mapsto> \<lparr>GetId = ''dashboard'', IsNonUniqueNameApi = False, DeprecatedBy = []\<rparr>,
             ''alerting-profile'' \<mapsto>
               \<lparr>GetId = ''alerting-profile'', IsNonUniqueNameApi = True, DeprecatedBy = []\<rparr>]"

definition exDashboardApi :: Api where
  "exDashboardApi = \<lparr>GetId = ''dashboard'', IsNonUniqueNameApi = False, DeprecatedBy = []\<rparr>"

definition exProfileApi :: Api where
  "exProfileApi = \<lparr>GetId = ''alerting-profile'', IsNonUniqueNameApi = True, DeprecatedBy = []\<rparr>"

definition exClassic :: "string \<Rightarrow> string \<Rightarrow> string \<Rightarrow> Config" where
  "exClassic api configId name =
     \<lparr>Template = \<lparr>TemplateId = configId, TemplateName = configId, TemplateContent = ''{}''\<rparr>,
      Coordinate = \<lparr>Project = ''p'', Type = api, ConfigId = configId\<rparr>,
      ConfigType = \<lparr>Api = api, SchemaId = [], SchemaVersion = [], EntitiesType = []\<rparr>,
      Parameters = [NameParameter \<mapsto> ValueParameter (StringValue name)],
      Skip = False,
      OriginObjectId = []\<rparr>"

definition exSetting :: "string \<Rightarrow> (string \<rightharpoonup> Parameter) \<Rightarrow> Config" where
  "exSetting configId params =
     \<lparr>Template = \<lparr>TemplateId = configId, TemplateName = configId, TemplateContent = ''{}''\<rparr>,
      Coordinate = \<lparr>Project = ''p'', Type = ''builtin:tags'', ConfigId = configId\<rparr>,
      ConfigType = \<lparr>Api = [], SchemaId = ''builtin:tags'', SchemaVersion = ''1.0'',
                    EntitiesType = []\<rparr>,
      Parameters = params,
      Skip = False,
      OriginObjectId = ''origin-1''\<rparr>"

definition exSkipped :: Config where
  "exSkipped = (exClassic ''dashboard'' ''s'' ''Skipped'')\<lparr>Skip := True\<rparr>"

definition exContinue :: DeployConfigsOptions where
  "exContinue = \<lparr>ContinueOnErr = True, DryRun = False\<rparr>"

definition exStop :: DeployConfigsOptions where
  "exStop = \<lparr>ContinueOnErr = False, DryRun = False\<rparr>"

text \<open>A tenant that reports an entity under another name than the one it was given.\<close>

definition exRenamingClient :: Client where
  "exRenamingClient history c =
     (case c of
        UpsertConfigByName a name payload \<Rightarrow> Inr \<lparr>EntityId = ''id-of-'' @ name, Name = name @ '' (1)''\<rparr>
      | UpsertConfigByNonUniqueNameAndId a ident name payload \<Rightarrow> Inr \<lparr>EntityId = ident, Name = name\<rparr>
      | UpsertSettings obj \<Rightarrow> Inr \<lparr>EntityId = ''object-'' @ so_Id obj, Name = so_Id obj\<rparr>)"

text \<open>
  A tenant with settings objects: JSON objects are the values that start with a brace,
  the filter discards the value \<open>{preset}\<close>.
\<close>

definition exCodec :: "string codec" where
  "exCodec = \<lparr>Unmarshal = (\<lambda>v. case v of [] \<Rightarrow> None
                                     | ch # _ \<Rightarrow> if ch = CHR ''{'' then Some v else None),
              MarshalIndent = (\<lambda>v. Some v),
              GenerateUuidFromName = (\<lambda>n. ''uuid:'' @ n)\<rparr>"

definition exObject :: "string \<Rightarrow> string \<Rightarrow> DownloadSettingsObject" where
  "exObject objectId val =
     \<lparr>dl_ObjectId = objectId, dl_Value = val, dl_SchemaId = ''builtin:tags'',
      dl_SchemaVersion = ''1.0'', dl_Scope = ''environment''\<rparr>"

definition exDownloader :: "string Downloader" where
  "exDownloader =
     \<lparr>d_client = (\<lambda>s. if s = ''builtin:tags''
                     then Inr [exObject ''o1'' ''{}'', exObject ''o2'' ''{preset}'',
                               exObject ''o3'' ''not json'', exObject ''o4'' ''{}'']
                     else if s = ''builtin:broken'' then Inr [exObject ''o5'' ''not json'']
                     else if s = ''builtin:preset'' then Inr [exObject ''o6'' ''{preset}'']
                     else if s = ''builtin:none'' then Inr []
                     else Inl ''HTTP 404''),
      d_filters = (\<lambda>schemaId json. (json = ''{preset}'', ''preset''))\<rparr>"

text \<open>A manifest with two environments, and collaborators of the delete command.\<close>

definition exEnvironments :: Environments where
  "exEnvironments = [(''dev'', \<lparr>envName = ''dev'', envGroup = ''nonprod''\<rparr>),
                     (''prod'', \<lparr>envName = ''prod'', envGroup = ''production''\<rparr>)]"

definition exDeleteDeps :: "unit delete_deps" where
  "exDeleteDeps =
     \<lparr>AbsClean = (\<lambda>path. (''/work/'' @ path, None)),
      ReplaceAll = (\<lambda>s old new. ''/work/''),
      LoadManifest = (\<lambda>path. (\<lparr>Environments = exEnvironments\<rparr>, [])),
      LoadEntriesToDelete = (\<lambda>dir file. ((), [])),
      FilterByGroup = (\<lambda>envs g. filter (\<lambda>e. envGroup (snd e) = g) envs),
      FilterByNames = (\<lambda>envs names.
         if list_all (\<lambda>n. n \<in> fst ` set envs) names
         then Inr (filter (\<lambda>e. fst e \<in> set names) envs)
         else Inl (Foreign ''environment not found'')),
      deleteConfigForEnvironment = (\<lambda>env entries. [])\<rparr>"

text \<open>The errors the deployment of a config yields in a state (none when it is skipped).\<close>

definition deploymentErrorsOf :: "deps \<Rightarrow> Client \<Rightarrow> ApiMap \<Rightarrow> deploy_state \<Rightarrow> Config \<Rightarrow> error list" where
  "deploymentErrorsOf K cl apis st c =
     (if Skip c then [] else snd (fst (deployByType K cl apis st c)))"

text \<open>
  The errors a run that never stops early collects: those of every config, in order,
  each wrapped with the config's coordinate and the verb, each config deployed in the
  state the configs before it have left.
\<close>

fun accumulatedErrors :: "deps \<Rightarrow> Client \<Rightarrow> ApiMap \<Rightarrow> DeployConfigsOptions \<Rightarrow> deploy_state
    \<Rightarrow> Config list \<Rightarrow> error list" where
  "accumulatedErrors K cl apis opts st [] = []"
| "accumulatedErrors K cl apis opts st (c # cs) =
     map (FailedTo (if DryRun opts then ''validate'' else ''deploy'') (Coordinate c))
         (deploymentErrorsOf K cl apis st c)
     @ accumulatedErrors K cl apis opts (snd (deployStep K cl apis opts st c)) cs"

text \<open>
  The id of a config of a non-unique-name API, as a function of the project and the
  config id alone.
\<close>

definition entityUuidOf :: "deps \<Rightarrow> string \<Rightarrow> string \<Rightarrow> string" where
  "entityUuidOf K projectId configId =
     (if IsUuid K configId \<or> IsMeId K configId then configId
      else GenerateUuidFromConfigId K projectId configId)"

section \<open>Properties of the external ID\<close>

lemma length_EncodeToString: "length (EncodeToString xs) = 4 * ((length xs + 2) div 3)"
proof (induction xs rule: EncodeToString.induct)
  case (4 a b c rest)
  have "(length rest + 5) div 3 = Suc ((length rest + 2) div 3)"
    by arith
  with 4 show ?case
    by (simp add: Let_def add.commute)
qed (simp_all add: Let_def)

lemma GenerateExternalID_unfold:
  "GenerateExternalID schema ID =
     ''monaco:'' @ (if length (EncodeToString (schema @ ''$'' @ ID)) > 493
                    then drop 493 (EncodeToString (schema @ ''$'' @ ID))
                    else EncodeToString (schema @ ''$'' @ ID))"
  by (simp add: GenerateExternalID_def Let_def externalIDMaxLength_def prefix_monaco_def)

lemma length_GenerateExternalID:
  "length (GenerateExternalID schema ID) =
     (let n = 4 * ((length schema + length ID + 3) div 3)
      in if n > 493 then n - 486 else n + 7)"
proof -
  have "length (schema @ ''$'' @ ID) + 2 = length schema + length ID + 3"
    by simp
  then have "length (EncodeToString (schema @ ''$'' @ ID))
      = 4 * ((length schema + length ID + 3) div 3)"
    by (simp only: length_EncodeToString)
  then show ?thesis
    unfolding GenerateExternalID_unfold Let_def by (simp del: length_append) arith
qed

lemma GenerateExternalID_prefix: "take 7 (GenerateExternalID schema ID) = ''monaco:''"
  by (simp add: GenerateExternalID_unfold)

lemma GenerateExternalID_short:
  "length (EncodeToString (schema @ ''$'' @ ID)) \<le> 493 \<Longrightarrow>
   GenerateExternalID schema ID = ''monaco:'' @ EncodeToString (schema @ ''$'' @ ID)"
  by (simp add: GenerateExternalID_unfold)

text \<open>
  C4. The external ID is documented to be at most 500 bytes long, the encoding being cut
  from the left to its last 493 characters. The slice drops the first 493 characters
  instead of keeping the last 493: for the schema \<open>builtin:alerting.profile\<close> and an ID of
  720 bytes the encoding has 996 characters, 503 of them are kept, and the external ID
  is 510 bytes long.
\<close>

theorem GenerateExternalID_exceeds_max_length:
  "length (GenerateExternalID ''builtin:alerting.profile'' (replicate 720 CHR ''a'')) = 510
   \<and> length (EncodeToString (''builtin:alerting.profile'' @ ''$'' @ replicate 720 CHR ''a'')) = 996
   \<and> GenerateExternalID ''builtin:alerting.profile'' (replicate 720 CHR ''a'')
       = ''monaco:'' @ drop 493 (EncodeToString (''builtin:alerting.profile'' @ ''$'' @ replicate 720 CHR ''a''))
   \<and> \<not> length (GenerateExternalID ''builtin:alerting.profile'' (replicate 720 CHR ''a''))
         \<le> externalIDMaxLength"
  by (simp add: length_GenerateExternalID GenerateExternalID_unfold length_EncodeToString
      externalIDMaxLength_def)


section \<open>Properties of the deployment loop\<close>

lemma deployStep_flow:
  "fst (deployStep K cl apis opts st c) =
     (if deploymentErrorsOf K cl apis st c \<noteq> [] \<and> \<not> ContinueOnErr opts \<and> \<not> DryRun opts
      then Return else Continue)"
  by (simp add: deployStep_def deploymentErrorsOf_def Let_def split: prod.splits)

lemma deployStep_errors:
  "errors (snd (deployStep K cl apis opts st c)) =
     errors st @ map (FailedTo (snd (getWordsForLogging (DryRun opts))) (Coordinate c))
                     (deploymentErrorsOf K cl apis st c)"
  by (simp add: deployStep_def deploymentErrorsOf_def Let_def split: prod.splits)

lemma deployStep_infoLog:
  "map logged (infoLog (snd (deployStep K cl apis opts st c))) =
     map logged (infoLog st) @ [Coordinate c]"
  by (simp add: deployStep_def Let_def split: prod.splits)

lemma deployLoop_Cons:
  "deployLoop K cl apis opts st (c # cs) =
     (if deploymentErrorsOf K cl apis st c \<noteq> [] \<and> \<not> ContinueOnErr opts \<and> \<not> DryRun opts
      then snd (deployStep K cl apis opts st c)
      else deployLoop K cl apis opts (snd (deployStep K cl apis opts st c)) cs)"
  using deployStep_flow [of K cl apis opts st c]
  by (cases "deployStep K cl apis opts st c") (auto split: flow.splits)

lemma deployLoop_returns:
  "deploymentErrorsOf K cl apis st c \<noteq> [] \<Longrightarrow> \<not> ContinueOnErr opts \<Longrightarrow> \<not> DryRun opts \<Longrightarrow>
   deployLoop K cl apis opts st (c # cs) = snd (deployStep K cl apis opts st c)"
  by (simp add: deployLoop_Cons del: deployLoop.simps)

lemma deployLoop_continues:
  "deploymentErrorsOf K cl apis st c = [] \<or> ContinueOnErr opts \<or> DryRun opts \<Longrightarrow>
   deployLoop K cl apis opts st (c # cs) =
     deployLoop K cl apis opts (snd (deployStep K cl apis opts st c)) cs"
  by (auto simp add: deployLoop_Cons simp del: deployLoop.simps)

lemma deployLoop_log_continue:
  assumes "ContinueOnErr opts \<or> DryRun opts"
  shows "map logged (infoLog (deployLoop K cl apis opts st cs)) =
           map logged (infoLog st) @ map Coordinate cs"
proof (induction cs arbitrary: st)
  case Nil
  show ?case by simp
next
  case (Cons c cs)
  from assms have "deployLoop K cl apis opts st (c # cs) =
      deployLoop K cl apis opts (snd (deployStep K cl apis opts st c)) cs"
    by (simp add: deployLoop_continues del: deployLoop.simps)
  then show ?case
    by (simp add: Cons.IH deployStep_infoLog del: deployLoop.simps)
qed

lemma deployLoop_errors_wrapped:
  "\<exists>es. errors (deployLoop K cl apis opts st cs) = errors st @ es \<and>
        (\<forall>e \<in> set es. \<exists>c \<in> set cs. \<exists>e'.
            e = FailedTo (snd (getWordsForLogging (DryRun opts))) (Coordinate c) e')"
proof (induction cs arbitrary: st)
  case Nil
  show ?case by simp
next
  case (Cons c cs)
  let ?st1 = "snd (deployStep K cl apis opts st c)"
  let ?new = "map (FailedTo (snd (getWordsForLogging (DryRun opts))) (Coordinate c))
                  (deploymentErrorsOf K cl apis st c)"
  have step: "errors ?st1 = errors st @ ?new"
    by (rule deployStep_errors)
  show ?case
  proof (cases "deploymentErrorsOf K cl apis st c \<noteq> [] \<and> \<not> ContinueOnErr opts \<and> \<not> DryRun opts")
    case True
    then have "deployLoop K cl apis opts st (c # cs) = ?st1"
      by (simp add: deployLoop_returns del: deployLoop.simps)
    with step show ?thesis by (auto simp del: deployLoop.simps)
  next
    case False
    then have eq: "deployLoop K cl apis opts st (c # cs) = deployLoop K cl apis opts ?st1 cs"
      by (auto simp add: deployLoop_continues simp del: deployLoop.simps)
    from Cons.IH [of ?st1] obtain es where
      es: "errors (deployLoop K cl apis opts ?st1 cs) = errors ?st1 @ es"
        "\<forall>e \<in> set es. \<exists>c \<in> set cs. \<exists>e'.
            e = FailedTo (snd (getWordsForLogging (DryRun opts))) (Coordinate c) e'"
      by blast
    have "errors (deployLoop K cl apis opts st (c # cs)) = errors st @ (?new @ es)"
      by (simp only: eq es step append_assoc)
    moreover have "\<forall>e \<in> set (?new @ es). \<exists>c' \<in> set (c # cs). \<exists>e'.
            e = FailedTo (snd (getWordsForLogging (DryRun opts))) (Coordinate c') e'"
      using es(2) by auto
    ultimately show ?thesis by blast
  qed
qed

lemma deployLoop_stop:
  assumes "\<not> ContinueOnErr opts" "\<not> DryRun opts"
  shows "\<exists>n es. n \<le> length cs \<and>
           map logged (infoLog (deployLoop K cl apis opts st cs)) =
             map logged (infoLog st) @ map Coordinate (take n cs) \<and>
           errors (deployLoop K cl apis opts st cs) = errors st @ es \<and>
           (if es = [] then n = length cs
            else 0 < n \<and> (\<exists>es'. es = map (FailedTo ''deploy'' (Coordinate (cs ! (n - 1)))) es'))"
proof (induction cs arbitrary: st)
  case Nil
  show ?case by simp
next
  case (Cons c cs)
  let ?st1 = "snd (deployStep K cl apis opts st c)"
  let ?d = "deploymentErrorsOf K cl apis st c"
  have verb: "snd (getWordsForLogging (DryRun opts)) = ''deploy''"
    using assms by (simp add: getWordsForLogging_def)
  have step: "errors ?st1 = errors st @ map (FailedTo ''deploy'' (Coordinate c)) ?d"
    using deployStep_errors [of K cl apis opts st c] by (simp only: verb)
  have lg: "map logged (infoLog ?st1) = map logged (infoLog st) @ [Coordinate c]"
    by (rule deployStep_infoLog)
  show ?case
  proof (cases "?d = []")
    case False
    with assms have eq: "deployLoop K cl apis opts st (c # cs) = ?st1"
      by (simp add: deployLoop_returns del: deployLoop.simps)
    show ?thesis
      apply (rule exI [of _ 1])
      apply (rule exI [of _ "map (FailedTo ''deploy'' (Coordinate c)) ?d"])
      using False by (auto simp add: eq step lg simp del: deployLoop.simps)
  next
    case True
    then have eq: "deployLoop K cl apis opts st (c # cs) = deployLoop K cl apis opts ?st1 cs"
      by (simp add: deployLoop_continues del: deployLoop.simps)
    from True step have step': "errors ?st1 = errors st" by simp
    from Cons.IH [of ?st1] obtain n es where
      n: "n \<le> length cs"
      and l: "map logged (infoLog (deployLoop K cl apis opts ?st1 cs)) =
             map logged (infoLog ?st1) @ map Coordinate (take n cs)"
      and e: "errors (deployLoop K cl apis opts ?st1 cs) = errors ?st1 @ es"
      and r: "if es = [] then n = length cs
            else 0 < n \<and> (\<exists>es'. es = map (FailedTo ''deploy'' (Coordinate (cs ! (n - 1)))) es')"
      by blast
    show ?thesis
      apply (rule exI [of _ "Suc n"])
      apply (rule exI [of _ es])
      using n l e r by (auto simp add: eq step' lg simp del: deployLoop.simps split: if_splits)
  qed
qed


lemmas ex_defs = exDeps_def exClient_def exFailingClient_def exApis_def exClassic_def exSetting_def
  exSkipped_def exDashboardApi_def exProfileApi_def
  exContinue_def exStop_def exResolve_def exName_def

lemmas deploy_defs = DeployConfigs_def runDeployConfigs_def initialState_def deployStep_def
  deployByType_def deployConfig_def deploySetting_def upsertNonUniqueNameConfig_def extractScope_def
  getWordsForLogging_def NewEntityMap_def PutResolved_def Resolved_def Known_def invoke_def
  IdParameter_def NameParameter_def ScopeParameter_def zeroEntity_def zeroCoordinate_def
  duplicatedName_def deploymentErrorsOf_def

lemma deployConfig_success:
  assumes "deployConfig K cl cls apis em conf = ((ent, []), cls')"
  shows "EntityCoordinate ent = Coordinate conf \<and> \<not> EntitySkip ent"
  using assms
  by (auto simp add: deployConfig_def Let_def split: option.splits prod.splits sum.splits if_splits)

lemma deploySetting_success:
  assumes "deploySetting K cl cls em conf = ((ent, []), cls')"
  shows "EntityCoordinate ent = Coordinate conf \<and> \<not> EntitySkip ent"
  using assms
  by (auto simp add: deploySetting_def Let_def split: option.splits prod.splits sum.splits if_splits)

lemma Resolved_PutResolved: "Resolved (PutResolved k e m) k = Some e"
  by (simp add: Resolved_def PutResolved_def)

text \<open>
  C8. A config with \<open>skip=true\<close> causes no client call and no error; the entity map then
  holds, under the config's coordinate, the entity with \<open>Skip=true\<close>, empty properties and
  the config id as its name; the loop goes on with the next config.
\<close>

theorem skipped_config_recorded:
  assumes "Skip c"
  shows "fst (deployStep K cl apis opts st c) = Continue
       \<and> calls (snd (deployStep K cl apis opts st c)) = calls st
       \<and> errors (snd (deployStep K cl apis opts st c)) = errors st
       \<and> Resolved (entityMap (snd (deployStep K cl apis opts st c))) (Coordinate c)
           = Some \<lparr>EntityName = ConfigId (Coordinate c), EntityCoordinate = Coordinate c,
                   Properties = Map.empty, EntitySkip = True\<rparr>
       \<and> deployLoop K cl apis opts st (c # cs)
           = deployLoop K cl apis opts (snd (deployStep K cl apis opts st c)) cs"
  using assms by (simp add: deployStep_def Resolved_PutResolved)

theorem skipped_config_recorded_witness:
  "Skip exSkipped
   \<and> calls (runDeployConfigs exDeps exClient exApis [exSkipped] exStop) = []
   \<and> DeployConfigs exDeps exClient exApis [exSkipped] exStop = []
   \<and> Resolved (entityMap (runDeployConfigs exDeps exClient exApis [exSkipped] exStop))
         \<lparr>Project = ''p'', Type = ''dashboard'', ConfigId = ''s''\<rparr>
       = Some \<lparr>EntityName = ''s'',
               EntityCoordinate = \<lparr>Project = ''p'', Type = ''dashboard'', ConfigId = ''s''\<rparr>,
               Properties = Map.empty, EntitySkip = True\<rparr>"
  using skipped_config_recorded [of exSkipped exDeps exClient exApis exStop "initialState exApis" "[]"]
  by (simp add: ex_defs deploy_defs Let_def)

text \<open>
  C1, as amended. A config that is skipped, or that is a settings or classic config whose
  deployment returns no errors, is recorded: after its iteration the entity map holds,
  under the config's own coordinate, an entity with that coordinate, and the loop goes
  on.
\<close>

theorem deployed_config_recorded:
  assumes "Skip c \<or> (\<not> IsEntities K (ConfigType c) \<and> deploymentErrorsOf K cl apis st c = [])"
  shows "fst (deployStep K cl apis opts st c) = Continue
       \<and> (\<exists>e. Resolved (entityMap (snd (deployStep K cl apis opts st c))) (Coordinate c) = Some e
              \<and> EntityCoordinate e = Coordinate c \<and> EntitySkip e = Skip c)"
proof (cases "Skip c")
  case True
  then show ?thesis by (simp add: deployStep_def Resolved_PutResolved)
next
  case False
  with assms have ne: "\<not> IsEntities K (ConfigType c)"
    and noerr: "snd (fst (deployByType K cl apis st c)) = []"
    by (simp_all add: deploymentErrorsOf_def)
  obtain ent cls' where r: "deployByType K cl apis st c = ((ent, []), cls')"
    using noerr by (cases "deployByType K cl apis st c") auto
  have "EntityCoordinate ent = Coordinate c \<and> \<not> EntitySkip ent"
  proof (cases "IsSettings K (ConfigType c)")
    case True
    with ne r have "deploySetting K cl (calls st) (entityMap st) c = ((ent, []), cls')"
      by (simp add: deployByType_def)
    then show ?thesis by (rule deploySetting_success)
  next
    case nset: False
    with ne r have "deployConfig K cl (calls st) apis (entityMap st) c = ((ent, []), cls')"
      by (simp add: deployByType_def)
    then show ?thesis by (rule deployConfig_success)
  qed
  with False r show ?thesis
    by (simp add: deployStep_def Let_def Resolved_PutResolved split: prod.splits)
qed

theorem deployed_config_recorded_witness:
  "(Skip (exClassic ''dashboard'' ''a'' ''Overview'')
      \<or> (\<not> IsEntities exDeps (ConfigType (exClassic ''dashboard'' ''a'' ''Overview''))
          \<and> deploymentErrorsOf exDeps exClient exApis (initialState exApis)
                (exClassic ''dashboard'' ''a'' ''Overview'') = []))
   \<and> EntityName (the (Resolved (entityMap (runDeployConfigs exDeps exClient exApis
          [exClassic ''dashboard'' ''a'' ''Overview''] exStop))
        (Coordinate (exClassic ''dashboard'' ''a'' ''Overview'')))) = ''Overview''
   \<and> EntityCoordinate (the (Resolved (entityMap (runDeployConfigs exDeps exClient exApis
          [exClassic ''dashboard'' ''a'' ''Overview''] exStop))
        (Coordinate (exClassic ''dashboard'' ''a'' ''Overview''))))
       = Coordinate (exClassic ''dashboard'' ''a'' ''Overview'')"
  using deployed_config_recorded [of "exClassic ''dashboard'' ''a'' ''Overview''" exDeps exClient
      exApis "initialState exApis" exStop]
  by (simp add: ex_defs deploy_defs Let_def)

text \<open>
  C1, as stated, fails where the deployment returns errors. With a client that answers
  every call with an error and \<open>continueOnError=true\<close>, the entity map holds nothing under
  the config's coordinate after the run: the zero-valued entity that \<open>deployConfig\<close>
  returns with its errors is recorded under its own, zero-valued coordinate.
\<close>

theorem failed_config_not_recorded:
  "Resolved (entityMap (runDeployConfigs exDeps exFailingClient exApis
        [exClassic ''dashboard'' ''a'' ''Overview''] exContinue))
      (Coordinate (exClassic ''dashboard'' ''a'' ''Overview'')) = None
   \<and> Resolved (entityMap (runDeployConfigs exDeps exFailingClient exApis
        [exClassic ''dashboard'' ''a'' ''Overview''] exContinue)) zeroCoordinate = Some zeroEntity
   \<and> DeployConfigs exDeps exFailingClient exApis [exClassic ''dashboard'' ''a'' ''Overview''] exContinue
      = [FailedTo ''deploy'' (Coordinate (exClassic ''dashboard'' ''a'' ''Overview''))
           (ConfigDeployErr (exClassic ''dashboard'' ''a'' ''Overview'') ''HTTP 500'')]"
  by (simp add: ex_defs deploy_defs Let_def)

lemma verb_eq: "snd (getWordsForLogging d) = (if d then ''validate'' else ''deploy'')"
  by (simp add: getWordsForLogging_def)

lemma deployLoop_accumulates:
  assumes "ContinueOnErr opts \<or> DryRun opts"
  shows "errors (deployLoop K cl apis opts st cs) = errors st @ accumulatedErrors K cl apis opts st cs"
proof (induction cs arbitrary: st)
  case Nil
  show ?case by simp
next
  case (Cons c cs)
  from assms have "deployLoop K cl apis opts st (c # cs) =
      deployLoop K cl apis opts (snd (deployStep K cl apis opts st c)) cs"
    by (simp add: deployLoop_continues del: deployLoop.simps)
  then show ?case
    by (simp add: Cons.IH deployStep_errors verb_eq del: deployLoop.simps)
qed

text \<open>
  C2. The loop returns right after a config whose deployment yields errors exactly when
  \<open>continueOnError\<close> and \<open>dryRun\<close> are both false, and goes on with the next config otherwise;
  the errors of a config are appended, each wrapped with the config's coordinate and the
  verb (\<open>validate\<close> on a dry run, \<open>deploy\<close> otherwise). So every error DeployConfigs returns
  is wrapped with the coordinate of one of the configs and the verb; with
  \<open>continueOnError\<close> or \<open>dryRun\<close> every config is started on, in order, and the result is the
  accumulated list of all errors; with both false the configs started on are a prefix of
  the list, which is the whole list when no error is returned, and otherwise ends with
  the config all returned errors come from.
\<close>

theorem DeployConfigs_error_policy:
  "deployLoop K cl apis opts st (c # rest) =
      (if deploymentErrorsOf K cl apis st c \<noteq> [] \<and> \<not> ContinueOnErr opts \<and> \<not> DryRun opts
       then snd (deployStep K cl apis opts st c)
       else deployLoop K cl apis opts (snd (deployStep K cl apis opts st c)) rest)
   \<and> errors (snd (deployStep K cl apis opts st c)) =
       errors st @ map (FailedTo (if DryRun opts then ''validate'' else ''deploy'') (Coordinate c))
                       (deploymentErrorsOf K cl apis st c)
   \<and> (\<forall>e \<in> set (DeployConfigs K cl apis cs opts). \<exists>c' \<in> set cs. \<exists>e'.
         e = FailedTo (if DryRun opts then ''validate'' else ''deploy'') (Coordinate c') e')
   \<and> (ContinueOnErr opts \<or> DryRun opts \<longrightarrow>
         map logged (infoLog (runDeployConfigs K cl apis cs opts)) = map Coordinate cs
         \<and> DeployConfigs K cl apis cs opts = accumulatedErrors K cl apis opts (initialState apis) cs)
   \<and> (\<not> ContinueOnErr opts \<and> \<not> DryRun opts \<longrightarrow>
         (\<exists>n \<le> length cs.
            map logged (infoLog (runDeployConfigs K cl apis cs opts)) = map Coordinate (take n cs)
            \<and> (if DeployConfigs K cl apis cs opts = [] then n = length cs
               else 0 < n \<and> (\<exists>es. DeployConfigs K cl apis cs opts
                                     = map (FailedTo ''deploy'' (Coordinate (cs ! (n - 1)))) es))))"
proof (intro conjI impI)
  show "deployLoop K cl apis opts st (c # rest) =
      (if deploymentErrorsOf K cl apis st c \<noteq> [] \<and> \<not> ContinueOnErr opts \<and> \<not> DryRun opts
       then snd (deployStep K cl apis opts st c)
       else deployLoop K cl apis opts (snd (deployStep K cl apis opts st c)) rest)"
    by (rule deployLoop_Cons)
  show "errors (snd (deployStep K cl apis opts st c)) =
       errors st @ map (FailedTo (if DryRun opts then ''validate'' else ''deploy'') (Coordinate c))
                       (deploymentErrorsOf K cl apis st c)"
    using deployStep_errors [of K cl apis opts st c] by (simp only: verb_eq)
  show "\<forall>e \<in> set (DeployConfigs K cl apis cs opts). \<exists>c' \<in> set cs. \<exists>e'.
         e = FailedTo (if DryRun opts then ''validate'' else ''deploy'') (Coordinate c') e'"
    using deployLoop_errors_wrapped [of K cl apis opts "initialState apis" cs]
    by (auto simp add: DeployConfigs_def runDeployConfigs_def initialState_def verb_eq)
next
  assume m: "ContinueOnErr opts \<or> DryRun opts"
  show "map logged (infoLog (runDeployConfigs K cl apis cs opts)) = map Coordinate cs"
    using deployLoop_log_continue [OF m, of K cl apis "initialState apis" cs]
    by (simp add: runDeployConfigs_def initialState_def)
  show "DeployConfigs K cl apis cs opts = accumulatedErrors K cl apis opts (initialState apis) cs"
    using deployLoop_accumulates [OF m, of K cl apis "initialState apis" cs]
    by (simp add: DeployConfigs_def runDeployConfigs_def initialState_def)
next
  assume m: "\<not> ContinueOnErr opts \<and> \<not> DryRun opts"
  then have m1: "\<not> ContinueOnErr opts" and m2: "\<not> DryRun opts" by simp_all
  from deployLoop_stop [OF m1 m2, of cs K cl apis "initialState apis"]
  obtain n es where
    n: "n \<le> length cs"
    and l: "map logged (infoLog (deployLoop K cl apis opts (initialState apis) cs)) =
             map logged (infoLog (initialState apis)) @ map Coordinate (take n cs)"
    and e: "errors (deployLoop K cl apis opts (initialState apis) cs) = errors (initialState apis) @ es"
    and r: "if es = [] then n = length cs
            else 0 < n \<and> (\<exists>es'. es = map (FailedTo ''deploy'' (Coordinate (cs ! (n - 1)))) es')"
    by blast
  have i: "infoLog (initialState apis) = []" "errors (initialState apis) = []"
    by (simp_all add: initialState_def)
  show "\<exists>n \<le> length cs.
            map logged (infoLog (runDeployConfigs K cl apis cs opts)) = map Coordinate (take n cs)
            \<and> (if DeployConfigs K cl apis cs opts = [] then n = length cs
               else 0 < n \<and> (\<exists>es. DeployConfigs K cl apis cs opts
                                     = map (FailedTo ''deploy'' (Coordinate (cs ! (n - 1)))) es))"
    apply (rule exI [of _ n])
    using n l e r by (auto simp add: DeployConfigs_def runDeployConfigs_def i split: if_splits)
qed

theorem DeployConfigs_error_policy_witness:
  "(ContinueOnErr exContinue \<or> DryRun exContinue)
   \<and> \<not> ContinueOnErr exStop \<and> \<not> DryRun exStop
   \<and> map logged (infoLog (runDeployConfigs exDeps exFailingClient exApis
       [exClassic ''dashboard'' ''a'' ''Overview'', exClassic ''dashboard'' ''b'' ''Health''] exContinue))
     = [Coordinate (exClassic ''dashboard'' ''a'' ''Overview''),
        Coordinate (exClassic ''dashboard'' ''b'' ''Health'')]
   \<and> DeployConfigs exDeps exFailingClient exApis
       [exClassic ''dashboard'' ''a'' ''Overview'', exClassic ''dashboard'' ''b'' ''Health''] exContinue
     = [FailedTo ''deploy'' (Coordinate (exClassic ''dashboard'' ''a'' ''Overview''))
          (ConfigDeployErr (exClassic ''dashboard'' ''a'' ''Overview'') ''HTTP 500''),
        FailedTo ''deploy'' (Coordinate (exClassic ''dashboard'' ''b'' ''Health''))
          (ConfigDeployErr (exClassic ''dashboard'' ''b'' ''Health'') ''HTTP 500'')]
   \<and> map logged (infoLog (runDeployConfigs exDeps exFailingClient exApis
       [exClassic ''dashboard'' ''a'' ''Overview'', exClassic ''dashboard'' ''b'' ''Health''] exStop))
     = [Coordinate (exClassic ''dashboard'' ''a'' ''Overview'')]
   \<and> DeployConfigs exDeps exFailingClient exApis
       [exClassic ''dashboard'' ''a'' ''Overview'', exClassic ''dashboard'' ''b'' ''Health''] exStop
     = [FailedTo ''deploy'' (Coordinate (exClassic ''dashboard'' ''a'' ''Overview''))
          (ConfigDeployErr (exClassic ''dashboard'' ''a'' ''Overview'') ''HTTP 500'')]"
  using DeployConfigs_error_policy [of exDeps exFailingClient exApis exContinue "initialState exApis"
      "exClassic ''dashboard'' ''a'' ''Overview''" "[]"
      "[exClassic ''dashboard'' ''a'' ''Overview'', exClassic ''dashboard'' ''b'' ''Health'']"]
    DeployConfigs_error_policy [of exDeps exFailingClient exApis exStop "initialState exApis"
      "exClassic ''dashboard'' ''a'' ''Overview''" "[]"
      "[exClassic ''dashboard'' ''a'' ''Overview'', exClassic ''dashboard'' ''b'' ''Health'']"]
  by (simp add: ex_defs deploy_defs Let_def)

subsection \<open>Deploying one config\<close>

text \<open>
  C7. For a classic config of a non-unique-name API, the id passed to
  \<open>UpsertConfigByNonUniqueNameAndId\<close> is \<open>entityUuidOf\<close> of the config's project and config
  id: the config id itself when it is a UUID or an ME-id, and the UUID generated from
  project and config id otherwise. It is a function of the project and the config id
  alone (not of the entity map, the calls made before, the name or the payload), so a
  rerun passes the same id. \<open>deployConfig\<close> makes no other call for such a config, and makes
  this call whenever resolution, name extraction and rendering succeed.
\<close>

theorem non_unique_name_upsert_id:
  assumes "apis (Type (Coordinate conf)) = Some a" and "IsNonUniqueNameApi a"
  shows "upsertNonUniqueNameConfig K cl cls a conf name payload =
           invoke cl cls (UpsertConfigByNonUniqueNameAndId a
             (entityUuidOf K (Project (Coordinate conf)) (ConfigId (Coordinate conf))) name payload)
       \<and> (snd (deployConfig K cl cls apis em conf) = cls
          \<or> (\<exists>name' payload'. snd (deployConfig K cl cls apis em conf) =
                cls @ [UpsertConfigByNonUniqueNameAndId a
                  (entityUuidOf K (Project (Coordinate conf)) (ConfigId (Coordinate conf)))
                  name' payload']))
       \<and> (\<forall>properties name' payload'.
            resolveProperties K conf (Resolved em) = (properties, [])
            \<and> extractConfigName K conf properties = Inr name'
            \<and> Render K conf properties = Inr payload'
            \<longrightarrow> snd (deployConfig K cl cls apis em conf) =
                cls @ [UpsertConfigByNonUniqueNameAndId a
                  (entityUuidOf K (Project (Coordinate conf)) (ConfigId (Coordinate conf)))
                  name' payload'])"
proof (intro conjI allI impI)
  show u: "\<And>name payload. upsertNonUniqueNameConfig K cl cls a conf name payload =
           invoke cl cls (UpsertConfigByNonUniqueNameAndId a
             (entityUuidOf K (Project (Coordinate conf)) (ConfigId (Coordinate conf))) name payload)"
    by (simp add: upsertNonUniqueNameConfig_def entityUuidOf_def Let_def)
  show "snd (deployConfig K cl cls apis em conf) = cls
          \<or> (\<exists>name' payload'. snd (deployConfig K cl cls apis em conf) =
                cls @ [UpsertConfigByNonUniqueNameAndId a
                  (entityUuidOf K (Project (Coordinate conf)) (ConfigId (Coordinate conf)))
                  name' payload'])"
    using assms
    by (auto simp add: deployConfig_def u invoke_def Let_def
        split: prod.splits sum.splits if_splits)
next
  fix properties name' payload'
  assume "resolveProperties K conf (Resolved em) = (properties, [])
            \<and> extractConfigName K conf properties = Inr name'
            \<and> Render K conf properties = Inr payload'"
  with assms show "snd (deployConfig K cl cls apis em conf) =
                cls @ [UpsertConfigByNonUniqueNameAndId a
                  (entityUuidOf K (Project (Coordinate conf)) (ConfigId (Coordinate conf)))
                  name' payload']"
    by (auto simp add: deployConfig_def upsertNonUniqueNameConfig_def entityUuidOf_def invoke_def Let_def
        split: prod.splits sum.splits if_splits)
qed

theorem non_unique_name_upsert_id_witness:
  "exApis (Type (Coordinate (exClassic ''alerting-profile'' ''my-profile'' ''Profile''))) = Some exProfileApi
   \<and> IsNonUniqueNameApi exProfileApi
   \<and> calls (runDeployConfigs exDeps exClient exApis
        [exClassic ''alerting-profile'' ''my-profile'' ''Profile''] exStop)
      = [UpsertConfigByNonUniqueNameAndId exProfileApi ''uuid:p/my-profile'' ''Profile'' ''{}'']
   \<and> calls (runDeployConfigs exDeps exClient exApis
        [exClassic ''alerting-profile'' ''0f4ba2cd-9c0c-4a4b-a3c4-8b0d5f0f9b11'' ''Profile''] exStop)
      = [UpsertConfigByNonUniqueNameAndId exProfileApi ''0f4ba2cd-9c0c-4a4b-a3c4-8b0d5f0f9b11''
           ''Profile'' ''{}'']"
  using non_unique_name_upsert_id [of exApis "exClassic ''alerting-profile'' ''my-profile'' ''Profile''"
      exProfileApi exDeps exClient "[]" "''Profile''" "''{}''" "NewEntityMap exApis"]
  by (simp add: ex_defs deploy_defs exProfileApi_def entityUuidOf_def Let_def)


text \<open>
  C6. When the resolved properties have no \<open>scope\<close> entry, or the entry is the empty
  string, \<open>deploySetting\<close> returns errors and makes no client call (\<open>extractScope\<close> fails
  exactly in these two cases). When resolution succeeds, the scope is another value and
  the template renders, \<open>UpsertSettings\<close> is called once, with the config id as id, the
  schema id and version of the config, the scope, the rendered content and the origin
  object id.
\<close>

theorem deploySetting_scope:
  "(fst (resolveProperties K c (Resolved em)) ScopeParameter = None
      \<or> fst (resolveProperties K c (Resolved em)) ScopeParameter = Some (StringValue [])
    \<longrightarrow> snd (fst (deploySetting K cl cls em c)) \<noteq> [] \<and> snd (deploySetting K cl cls em c) = cls)
   \<and> (extractScope properties = Inl ScopeNotFound \<longleftrightarrow> properties ScopeParameter = None)
   \<and> (extractScope properties = Inl ScopeEmpty \<longleftrightarrow> properties ScopeParameter = Some (StringValue []))
   \<and> (resolveProperties K c (Resolved em) = (properties, [])
        \<and> properties ScopeParameter = Some scope \<and> scope \<noteq> StringValue []
        \<and> Render K c properties = Inr renderedConfig
      \<longrightarrow> snd (deploySetting K cl cls em c) =
            cls @ [UpsertSettings \<lparr>so_Id = ConfigId (Coordinate c),
                                   so_SchemaId = SchemaId (ConfigType c),
                                   so_SchemaVersion = SchemaVersion (ConfigType c),
                                   so_Scope = Sprint scope,
                                   so_Content = renderedConfig,
                                   so_OriginObjectId = OriginObjectId c\<rparr>])"
proof (intro conjI impI)
  assume "fst (resolveProperties K c (Resolved em)) ScopeParameter = None
      \<or> fst (resolveProperties K c (Resolved em)) ScopeParameter = Some (StringValue [])"
  then have "\<exists>e. extractScope (fst (resolveProperties K c (Resolved em))) = Inl e"
    by (auto simp add: extractScope_def)
  then show "snd (fst (deploySetting K cl cls em c)) \<noteq> []" "snd (deploySetting K cl cls em c) = cls"
    by (auto simp add: deploySetting_def split: prod.splits)
next
  show "extractScope properties = Inl ScopeNotFound \<longleftrightarrow> properties ScopeParameter = None"
    by (auto simp add: extractScope_def split: option.splits)
  show "extractScope properties = Inl ScopeEmpty \<longleftrightarrow> properties ScopeParameter = Some (StringValue [])"
    by (auto simp add: extractScope_def split: option.splits)
next
  assume "resolveProperties K c (Resolved em) = (properties, [])
        \<and> properties ScopeParameter = Some scope \<and> scope \<noteq> StringValue []
        \<and> Render K c properties = Inr renderedConfig"
  then show "snd (deploySetting K cl cls em c) =
            cls @ [UpsertSettings \<lparr>so_Id = ConfigId (Coordinate c),
                                   so_SchemaId = SchemaId (ConfigType c),
                                   so_SchemaVersion = SchemaVersion (ConfigType c),
                                   so_Scope = Sprint scope,
                                   so_Content = renderedConfig,
                                   so_OriginObjectId = OriginObjectId c\<rparr>]"
    by (auto simp add: deploySetting_def extractScope_def invoke_def split: prod.splits sum.splits)
qed


theorem deploySetting_scope_witness:
  "calls (runDeployConfigs exDeps exClient exApis
       [exSetting ''tag-1'' [NameParameter \<mapsto> ValueParameter (StringValue ''tag-1''),
                            ScopeParameter \<mapsto> ValueParameter (StringValue ''environment'')]] exStop)
     = [UpsertSettings \<lparr>so_Id = ''tag-1'', so_SchemaId = ''builtin:tags'', so_SchemaVersion = ''1.0'',
          so_Scope = ''environment'', so_Content = ''{}'', so_OriginObjectId = ''origin-1''\<rparr>]
   \<and> runDeployConfigs exDeps exClient exApis
       [exSetting ''tag-2'' [ScopeParameter \<mapsto> ValueParameter (StringValue [])]] exStop
     = (initialState exApis)
         \<lparr>errors := [FailedTo ''deploy'' \<lparr>Project = ''p'', Type = ''builtin:tags'', ConfigId = ''tag-2''\<rparr>
                       ScopeEmpty],
          infoLog := [LogAction ''Deploying''
                        \<lparr>Project = ''p'', Type = ''builtin:tags'', ConfigId = ''tag-2''\<rparr>]\<rparr>
   \<and> runDeployConfigs exDeps exClient exApis [exSetting ''tag-3'' Map.empty] exStop
     = (initialState exApis)
         \<lparr>errors := [FailedTo ''deploy'' \<lparr>Project = ''p'', Type = ''builtin:tags'', ConfigId = ''tag-3''\<rparr>
                       ScopeNotFound],
          infoLog := [LogAction ''Deploying''
                        \<lparr>Project = ''p'', Type = ''builtin:tags'', ConfigId = ''tag-3''\<rparr>]\<rparr>"
  using deploySetting_scope [of exDeps
      "exSetting ''tag-1'' [NameParameter \<mapsto> ValueParameter (StringValue ''tag-1''),
                            ScopeParameter \<mapsto> ValueParameter (StringValue ''environment'')]"
      "NewEntityMap exApis" exClient "[]"
      "fst (exResolve (exSetting ''tag-1'' [NameParameter \<mapsto> ValueParameter (StringValue ''tag-1''),
                            ScopeParameter \<mapsto> ValueParameter (StringValue ''environment'')]) Map.empty)"
      "StringValue ''environment''" "''{}''"]
    deploySetting_scope [of exDeps
      "exSetting ''tag-2'' [ScopeParameter \<mapsto> ValueParameter (StringValue [])]"
      "NewEntityMap exApis" exClient "[]" Map.empty "StringValue ''x''" "''{}''"]
  by (simp add: ex_defs deploy_defs Let_def)


lemma deployConfig_duplicate:
  assumes "apis (Type (Coordinate conf)) = Some a" "\<not> IsNonUniqueNameApi a"
    "resolveProperties K conf (Resolved em) = (properties, [])"
    "extractConfigName K conf properties = Inr configName"
    "Known em (GetId a) configName"
  shows "deployConfig K cl cls apis em conf =
          ((zeroEntity, [ConfigDeployErr conf (duplicatedName configName)]), cls)"
  using assms by (simp add: deployConfig_def Let_def)

lemma deployConfig_upsert_by_name:
  assumes "apis (Type (Coordinate conf)) = Some a" "\<not> IsNonUniqueNameApi a"
    "resolveProperties K conf (Resolved em) = (properties, [])"
    "extractConfigName K conf properties = Inr configName"
    "\<not> Known em (GetId a) configName"
    "Render K conf properties = Inr payload"
    "cl cls (UpsertConfigByName a configName payload) = Inr entity"
  shows "deployConfig K cl cls apis em conf =
          ((\<lparr>EntityName = Name entity, EntityCoordinate = Coordinate conf,
             Properties = properties(IdParameter \<mapsto> StringValue (EntityId entity),
                                     NameParameter \<mapsto> StringValue (Name entity)),
             EntitySkip = False\<rparr>, []), cls @ [UpsertConfigByName a configName payload])"
  using assms by (simp add: deployConfig_def invoke_def Let_def)

text \<open>
  C5, as amended. When the API of a classic config does not permit non-unique names and the entity
  map knows the extracted name for the API's id, \<open>deployConfig\<close> returns the
  duplicated-config-name error and makes no client call. So for two configs of the same
  unique-name API that resolve to the same name, where the upsert of the first succeeds
  and the tenant reports the entity under that name, DeployConfigs makes exactly one
  upsert call and returns exactly one error, the duplicate-name error of the second.
\<close>

theorem duplicate_name_detected:
  "(apis (Type (Coordinate conf)) = Some a \<and> \<not> IsNonUniqueNameApi a
      \<and> resolveProperties K conf (Resolved em) = (properties, [])
      \<and> extractConfigName K conf properties = Inr configName
      \<and> Known em (GetId a) configName
     \<longrightarrow> deployConfig K cl cls apis em conf =
          ((zeroEntity, [ConfigDeployErr conf (duplicatedName configName)]), cls))
   \<and> (\<not> Skip c1 \<and> \<not> Skip c2
      \<and> \<not> IsEntities K (ConfigType c1) \<and> \<not> IsSettings K (ConfigType c1)
      \<and> \<not> IsEntities K (ConfigType c2) \<and> \<not> IsSettings K (ConfigType c2)
      \<and> Type (Coordinate c1) = GetId a \<and> Type (Coordinate c2) = GetId a
      \<and> apis (GetId a) = Some a \<and> \<not> IsNonUniqueNameApi a
      \<and> resolveProperties K c1 Map.empty = (p1, [])
      \<and> extractConfigName K c1 p1 = Inr configName
      \<and> Render K c1 p1 = Inr payload
      \<and> cl [] (UpsertConfigByName a configName payload) = Inr entity
      \<and> Name entity = configName
      \<and> resolveProperties K c2
           [Coordinate c1 \<mapsto> \<lparr>EntityName = configName, EntityCoordinate = Coordinate c1,
              Properties = p1(IdParameter \<mapsto> StringValue (EntityId entity),
                              NameParameter \<mapsto> StringValue configName),
              EntitySkip = False\<rparr>] = (p2, [])
      \<and> extractConfigName K c2 p2 = Inr configName
     \<longrightarrow> calls (runDeployConfigs K cl apis [c1, c2] opts) = [UpsertConfigByName a configName payload]
        \<and> DeployConfigs K cl apis [c1, c2] opts =
            [FailedTo (if DryRun opts then ''validate'' else ''deploy'') (Coordinate c2)
               (ConfigDeployErr c2 (duplicatedName configName))])"
proof (intro conjI impI)
  assume "apis (Type (Coordinate conf)) = Some a \<and> \<not> IsNonUniqueNameApi a
      \<and> resolveProperties K conf (Resolved em) = (properties, [])
      \<and> extractConfigName K conf properties = Inr configName
      \<and> Known em (GetId a) configName"
  then show "deployConfig K cl cls apis em conf =
          ((zeroEntity, [ConfigDeployErr conf (duplicatedName configName)]), cls)"
    by (simp add: deployConfig_duplicate)
next
  assume h: "\<not> Skip c1 \<and> \<not> Skip c2
      \<and> \<not> IsEntities K (ConfigType c1) \<and> \<not> IsSettings K (ConfigType c1)
      \<and> \<not> IsEntities K (ConfigType c2) \<and> \<not> IsSettings K (ConfigType c2)
      \<and> Type (Coordinate c1) = GetId a \<and> Type (Coordinate c2) = GetId a
      \<and> apis (GetId a) = Some a \<and> \<not> IsNonUniqueNameApi a
      \<and> resolveProperties K c1 Map.empty = (p1, [])
      \<and> extractConfigName K c1 p1 = Inr configName
      \<and> Render K c1 p1 = Inr payload
      \<and> cl [] (UpsertConfigByName a configName payload) = Inr entity
      \<and> Name entity = configName
      \<and> resolveProperties K c2
           [Coordinate c1 \<mapsto> \<lparr>EntityName = configName, EntityCoordinate = Coordinate c1,
              Properties = p1(IdParameter \<mapsto> StringValue (EntityId entity),
                              NameParameter \<mapsto> StringValue configName),
              EntitySkip = False\<rparr>] = (p2, [])
      \<and> extractConfigName K c2 p2 = Inr configName"
  let ?e1 = "\<lparr>EntityName = configName, EntityCoordinate = Coordinate c1,
              Properties = p1(IdParameter \<mapsto> StringValue (EntityId entity),
                              NameParameter \<mapsto> StringValue configName),
              EntitySkip = False\<rparr>"
  let ?em0 = "NewEntityMap apis"
  let ?em1 = "PutResolved (Coordinate c1) ?e1 ?em0"
  have r0: "Resolved ?em0 = Map.empty" by (simp add: Resolved_def NewEntityMap_def)
  have k0: "\<not> Known ?em0 (GetId a) configName" by (simp add: Known_def NewEntityMap_def)
  have d1: "deployConfig K cl [] apis ?em0 c1 = ((?e1, []), [UpsertConfigByName a configName payload])"
    using h deployConfig_upsert_by_name [of apis c1 a K ?em0 p1 configName payload cl "[]" entity]
    by (simp add: r0 k0)
  have r1: "Resolved ?em1 = [Coordinate c1 \<mapsto> ?e1]"
    by (simp add: Resolved_def PutResolved_def NewEntityMap_def)
  have k1: "Known ?em1 (GetId a) configName"
    using h by (simp add: Known_def PutResolved_def)
  have d2: "deployConfig K cl cls apis ?em1 c2 =
      ((zeroEntity, [ConfigDeployErr c2 (duplicatedName configName)]), cls)" for cls
    using h deployConfig_duplicate [of apis c2 a K ?em1 p2 configName cl cls]
    by (simp add: r1 k1)
  have s1: "deployStep K cl apis opts (initialState apis) c1 =
      (Continue, \<lparr>entityMap = ?em1, errors = [], calls = [UpsertConfigByName a configName payload],
         infoLog = [LogAction (fst (getWordsForLogging (DryRun opts))) (Coordinate c1)]\<rparr>)"
    using h d1 by (simp add: deployStep_def deployByType_def initialState_def Let_def split: prod.splits)
  have s2: "snd (deployStep K cl apis opts
       \<lparr>entityMap = ?em1, errors = [], calls = [UpsertConfigByName a configName payload],
         infoLog = l\<rparr> c2) =
      \<lparr>entityMap = (if ContinueOnErr opts \<or> DryRun opts
                     then PutResolved zeroCoordinate zeroEntity ?em1 else ?em1),
        errors = [FailedTo (if DryRun opts then ''validate'' else ''deploy'') (Coordinate c2)
               (ConfigDeployErr c2 (duplicatedName configName))],
        calls = [UpsertConfigByName a configName payload],
        infoLog = l @ [LogAction (fst (getWordsForLogging (DryRun opts))) (Coordinate c2)]\<rparr>" for l
    using h d2 by (auto simp add: deployStep_def deployByType_def Let_def getWordsForLogging_def
        zeroEntity_def split: prod.splits)
  have run: "runDeployConfigs K cl apis [c1, c2] opts =
      snd (deployStep K cl apis opts
       \<lparr>entityMap = ?em1, errors = [], calls = [UpsertConfigByName a configName payload],
         infoLog = [LogAction (fst (getWordsForLogging (DryRun opts))) (Coordinate c1)]\<rparr> c2)"
    by (simp add: runDeployConfigs_def s1 split: prod.splits flow.splits)
  show "calls (runDeployConfigs K cl apis [c1, c2] opts) = [UpsertConfigByName a configName payload]"
    by (simp only: run s2) simp
  show "DeployConfigs K cl apis [c1, c2] opts =
            [FailedTo (if DryRun opts then ''validate'' else ''deploy'') (Coordinate c2)
               (ConfigDeployErr c2 (duplicatedName configName))]"
    unfolding DeployConfigs_def by (simp only: run s2) simp
qed

theorem duplicate_name_detected_witness:
  "calls (runDeployConfigs exDeps exClient exApis
       [exClassic ''dashboard'' ''a'' ''Overview'', exClassic ''dashboard'' ''b'' ''Overview''] exContinue)
     = [UpsertConfigByName exDashboardApi ''Overview'' ''{}'']
   \<and> DeployConfigs exDeps exClient exApis
       [exClassic ''dashboard'' ''a'' ''Overview'', exClassic ''dashboard'' ''b'' ''Overview''] exContinue
     = [FailedTo ''deploy'' \<lparr>Project = ''p'', Type = ''dashboard'', ConfigId = ''b''\<rparr>
          (ConfigDeployErr (exClassic ''dashboard'' ''b'' ''Overview'')
             ''duplicated config name `Overview`'')]"
  using duplicate_name_detected [where K = exDeps and cl = exClient and apis = exApis
      and a = exDashboardApi and opts = exContinue
      and ?c1.0 = "exClassic ''dashboard'' ''a'' ''Overview''"
      and ?c2.0 = "exClassic ''dashboard'' ''b'' ''Overview''"
      and ?p1.0 = "fst (exResolve (exClassic ''dashboard'' ''a'' ''Overview'') Map.empty)"
      and ?p2.0 = "fst (exResolve (exClassic ''dashboard'' ''b'' ''Overview'') Map.empty)"
      and configName = "''Overview''" and payload = "''{}''"
      and entity = "\<lparr>EntityId = ''id-of-Overview'', Name = ''Overview''\<rparr>"
      and conf = "exClassic ''dashboard'' ''b'' ''Overview''"
      and em = "PutResolved \<lparr>Project = ''p'', Type = ''dashboard'', ConfigId = ''a''\<rparr>
                  \<lparr>EntityName = ''Overview'',
                   EntityCoordinate = \<lparr>Project = ''p'', Type = ''dashboard'', ConfigId = ''a''\<rparr>,
                   Properties = Map.empty, EntitySkip = False\<rparr> (NewEntityMap exApis)"
      and properties = "fst (exResolve (exClassic ''dashboard'' ''b'' ''Overview'') Map.empty)"
      and cls = "[]"]
  by (simp add: ex_defs exDashboardApi_def duplicatedName_def NameParameter_def IdParameter_def
      PutResolved_def NewEntityMap_def Known_def Resolved_def)

text \<open>
  C5, as stated, fails for a tenant that reports the first entity under another name:
  the entity map learns the name the client returns, not the name the config resolved
  to, so the second config is upserted as well and no error is returned.
\<close>

theorem duplicate_name_undetected:
  "calls (runDeployConfigs exDeps exRenamingClient exApis
       [exClassic ''dashboard'' ''a'' ''Overview'', exClassic ''dashboard'' ''b'' ''Overview''] exStop)
     = [UpsertConfigByName exDashboardApi ''Overview'' ''{}'',
        UpsertConfigByName exDashboardApi ''Overview'' ''{}'']
   \<and> DeployConfigs exDeps exRenamingClient exApis
       [exClassic ''dashboard'' ''a'' ''Overview'', exClassic ''dashboard'' ''b'' ''Overview''] exStop = []"
  by (simp add: ex_defs deploy_defs exRenamingClient_def Let_def)


section \<open>Properties of the download engine\<close>

lemmas download_defs = download_def downloadSchema_def convertAllObjects_def convertObject_def
  NewDownloadTemplate_def exCodec_def exObject_def exDownloader_def NameParameter_def
  ScopeParameter_def


lemma convertLoop_append_result:
  "convertLoop J d p (r @ acc) objs = r @ convertLoop J d p acc objs"
  by (induction objs arbitrary: acc) (auto split: option.splits)

lemma convertLoop_all_parsed:
  assumes "\<forall>obj \<in> set pre. Unmarshal J (dl_Value obj) \<noteq> None"
  shows "convertLoop J d p acc (pre @ rest) =
           convertLoop J d p
             (acc @ map (convertObject J p)
                (filter (\<lambda>obj. \<not> fst (d_filters d (dl_SchemaId obj) (the (Unmarshal J (dl_Value obj))))) pre))
             rest"
  using assms
proof (induction pre arbitrary: acc)
  case Nil
  show ?case by simp
next
  case (Cons obj pre)
  then obtain j where j: "Unmarshal J (dl_Value obj) = Some j" by auto
  from Cons.prems have rest: "\<forall>obj \<in> set pre. Unmarshal J (dl_Value obj) \<noteq> None" by simp
  show ?case
    using Cons.IH [OF rest] by (simp add: j)
qed


text \<open>
  C9. When the value of an object fails to parse and the values of all objects listed
  before it parse, \<open>convertAllObjects\<close> returns exactly the configs converted from the
  objects before it that the filter does not discard, in listing order: the result is
  that of the objects before it alone, whatever follows.
\<close>

theorem convertAllObjects_stops_at_parse_failure:
  assumes "\<forall>obj \<in> set pre. Unmarshal J (dl_Value obj) \<noteq> None"
    and "Unmarshal J (dl_Value bad) = None"
  shows "convertAllObjects J d (pre @ bad # post) projectName =
           map (convertObject J projectName)
             (filter (\<lambda>obj. \<not> fst (d_filters d (dl_SchemaId obj) (the (Unmarshal J (dl_Value obj))))) pre)
       \<and> convertAllObjects J d (pre @ bad # post) projectName = convertAllObjects J d pre projectName"
proof -
  have a: "convertAllObjects J d (pre @ bad # post) projectName =
           map (convertObject J projectName)
             (filter (\<lambda>obj. \<not> fst (d_filters d (dl_SchemaId obj) (the (Unmarshal J (dl_Value obj))))) pre)"
    using convertLoop_all_parsed [OF assms(1), of d projectName "[]" "bad # post"] assms(2)
    by (simp add: convertAllObjects_def)
  have b: "convertAllObjects J d pre projectName =
           map (convertObject J projectName)
             (filter (\<lambda>obj. \<not> fst (d_filters d (dl_SchemaId obj) (the (Unmarshal J (dl_Value obj))))) pre)"
    using convertLoop_all_parsed [OF assms(1), of d projectName "[]" "[]"]
    by (simp add: convertAllObjects_def)
  from a b show ?thesis by simp
qed


theorem convertAllObjects_stops_at_parse_failure_witness:
  "Unmarshal exCodec (dl_Value (exObject ''o1'' ''{}'')) \<noteq> None
   \<and> Unmarshal exCodec (dl_Value (exObject ''o2'' ''{preset}'')) \<noteq> None
   \<and> Unmarshal exCodec (dl_Value (exObject ''o3'' ''not json'')) = None
   \<and> convertAllObjects exCodec exDownloader
        ([exObject ''o1'' ''{}'', exObject ''o2'' ''{preset}'']
           @ exObject ''o3'' ''not json'' # [exObject ''o4'' ''{}'']) ''p''
      = [convertObject exCodec ''p'' (exObject ''o1'' ''{}'')]"
  using convertAllObjects_stops_at_parse_failure [of "[exObject ''o1'' ''{}'', exObject ''o2'' ''{preset}'']"
      exCodec "exObject ''o3'' ''not json''" exDownloader "[exObject ''o4'' ''{}'']" "''p''"]
  by (simp add: exCodec_def exObject_def exDownloader_def)


lemma downloadLoop_other:
  "s \<notin> set schemas \<Longrightarrow> downloadLoop J d p results schemas s = results s"
  by (induction schemas arbitrary: results) (auto simp add: downloadSchema_def split: sum.splits)

lemma downloadLoop_entry:
  "downloadLoop J d p results schemas s =
     (if s \<in> set schemas
      then (case d_client d s of
              Inl err \<Rightarrow> results s
            | Inr objects \<Rightarrow> if objects = [] then results s
                             else Some (convertAllObjects J d objects p))
      else results s)"
proof (induction schemas arbitrary: results)
  case Nil
  show ?case by simp
next
  case (Cons x schemas)
  show ?case
  proof (cases "s \<in> set schemas")
    case True
    then show ?thesis
      by (auto simp add: Cons.IH downloadSchema_def split: sum.splits)
  next
    case False
    then show ?thesis
      by (auto simp add: downloadLoop_other downloadSchema_def split: sum.splits)
  qed
qed


lemma convertAllObjects_first_unparseable:
  "Unmarshal J (dl_Value obj) = None \<Longrightarrow> convertAllObjects J d (obj # rest) p = []"
  by (simp add: convertAllObjects_def)

lemma convertAllObjects_discarded_prefix:
  assumes "\<forall>obj \<in> set pre. \<exists>j. Unmarshal J (dl_Value obj) = Some j
             \<and> fst (d_filters d (dl_SchemaId obj) j)"
  shows "convertAllObjects J d (pre @ rest) p = convertAllObjects J d rest p"
  using assms unfolding convertAllObjects_def
  by (induction pre) auto

lemma convertAllObjects_all_discarded:
  assumes "\<forall>obj \<in> set objects. \<exists>j. Unmarshal J (dl_Value obj) = Some j
             \<and> fst (d_filters d (dl_SchemaId obj) j)"
  shows "convertAllObjects J d objects p = []"
  using convertAllObjects_discarded_prefix [OF assms, of "[]" p]
  by (simp add: convertAllObjects_def)

lemma convertAllObjects_empty_shape:
  assumes "convertAllObjects J d objects p = []"
  shows "\<exists>pre rest. objects = pre @ rest
           \<and> (\<forall>obj \<in> set pre. \<exists>j. Unmarshal J (dl_Value obj) = Some j
                  \<and> fst (d_filters d (dl_SchemaId obj) j))
           \<and> (rest = [] \<or> (\<exists>bad post. rest = bad # post \<and> Unmarshal J (dl_Value bad) = None))"
  using assms
proof (induction objects)
  case Nil
  show ?case by simp
next
  case (Cons obj objects)
  show ?case
  proof (cases "Unmarshal J (dl_Value obj)")
    case None
    then show ?thesis
      by (intro exI [of _ "[]"] exI [of _ "obj # objects"]) simp
  next
    case (Some j)
    show ?thesis
    proof (cases "fst (d_filters d (dl_SchemaId obj) j)")
      case True
      with Some Cons.prems have "convertAllObjects J d objects p = []"
        by (simp add: convertAllObjects_def)
      from Cons.IH [OF this] obtain pre rest where
        o: "objects = pre @ rest"
        and pd: "\<forall>obj \<in> set pre. \<exists>j. Unmarshal J (dl_Value obj) = Some j
                  \<and> fst (d_filters d (dl_SchemaId obj) j)"
        and r: "rest = [] \<or> (\<exists>bad post. rest = bad # post \<and> Unmarshal J (dl_Value bad) = None)"
        by blast
      show ?thesis
        apply (rule exI [of _ "obj # pre"])
        apply (rule exI [of _ rest])
        using o pd r Some True by simp
    next
      case False
      have "convertLoop J d p ([convertObject J p obj] @ []) objects
              = [convertObject J p obj] @ convertLoop J d p [] objects"
        by (rule convertLoop_append_result)
      with Some False Cons.prems show ?thesis
        by (simp add: convertAllObjects_def)
    qed
  qed
qed

text \<open>
  C3, as amended. The map \<open>download\<close> returns has no entry for a schema that was not asked
  for, whose fetch failed or whose fetch returned no object; for a schema whose fetch
  returned at least one object it has the entry \<open>convertAllObjects\<close> gives. That entry is
  the empty list when the first object does not parse and when all objects are
  discarded; it is empty exactly when the objects are a run of discarded objects that
  ends the listing or is followed by an object that does not parse; and it begins with
  the conversion of the first object when that object parses and is kept.
\<close>

theorem download_entries:
  "download J d schemas projectName s =
     (if s \<in> set schemas
      then (case d_client d s of
              Inl err \<Rightarrow> None
            | Inr objects \<Rightarrow> if objects = [] then None
                             else Some (convertAllObjects J d objects projectName))
      else None)
   \<and> (s \<in> set schemas \<and> d_client d s = Inr (obj # rest) \<and> Unmarshal J (dl_Value obj) = None
        \<longrightarrow> download J d schemas projectName s = Some [])
   \<and> (s \<in> set schemas \<and> d_client d s = Inr objects \<and> objects \<noteq> []
        \<and> (\<forall>obj \<in> set objects. \<exists>j. Unmarshal J (dl_Value obj) = Some j
               \<and> fst (d_filters d (dl_SchemaId obj) j))
        \<longrightarrow> download J d schemas projectName s = Some [])
   \<and> (download J d schemas projectName s = Some []
        \<longrightarrow> (\<exists>pre rest. s \<in> set schemas \<and> d_client d s = Inr (pre @ rest) \<and> pre @ rest \<noteq> []
               \<and> (\<forall>obj \<in> set pre. \<exists>j. Unmarshal J (dl_Value obj) = Some j
                      \<and> fst (d_filters d (dl_SchemaId obj) j))
               \<and> (rest = [] \<or> (\<exists>bad post. rest = bad # post
                                   \<and> Unmarshal J (dl_Value bad) = None))))
   \<and> (s \<in> set schemas \<and> d_client d s = Inr (obj # rest) \<and> Unmarshal J (dl_Value obj) = Some j
        \<and> \<not> fst (d_filters d (dl_SchemaId obj) j)
        \<longrightarrow> (\<exists>more. download J d schemas projectName s
                      = Some (convertObject J projectName obj # more)))"
proof -
  have e: "download J d schemas projectName s =
     (if s \<in> set schemas
      then (case d_client d s of
              Inl err \<Rightarrow> None
            | Inr objects \<Rightarrow> if objects = [] then None
                             else Some (convertAllObjects J d objects projectName))
      else None)"
    by (simp add: download_def downloadLoop_entry)
  have a: "download J d schemas projectName s = Some []"
    if "s \<in> set schemas \<and> d_client d s = Inr (obj # rest) \<and> Unmarshal J (dl_Value obj) = None"
    using that by (simp add: e convertAllObjects_first_unparseable)
  have b: "download J d schemas projectName s = Some []"
    if "s \<in> set schemas \<and> d_client d s = Inr objects \<and> objects \<noteq> []
        \<and> (\<forall>obj \<in> set objects. \<exists>j. Unmarshal J (dl_Value obj) = Some j
               \<and> fst (d_filters d (dl_SchemaId obj) j))"
    using that by (simp add: e convertAllObjects_all_discarded)
  have c: "\<exists>pre rest. s \<in> set schemas \<and> d_client d s = Inr (pre @ rest) \<and> pre @ rest \<noteq> []
               \<and> (\<forall>obj \<in> set pre. \<exists>j. Unmarshal J (dl_Value obj) = Some j
                      \<and> fst (d_filters d (dl_SchemaId obj) j))
               \<and> (rest = [] \<or> (\<exists>bad post. rest = bad # post
                                   \<and> Unmarshal J (dl_Value bad) = None))"
    if h: "download J d schemas projectName s = Some []"
  proof -
    from h e have s: "s \<in> set schemas" by (auto split: if_splits)
    from h e s obtain objects where o: "d_client d s = Inr objects" "objects \<noteq> []"
      "convertAllObjects J d objects projectName = []"
      by (auto split: sum.splits if_splits)
    from convertAllObjects_empty_shape [OF o(3)] obtain pre rest where
      "objects = pre @ rest"
      "\<forall>obj \<in> set pre. \<exists>j. Unmarshal J (dl_Value obj) = Some j
                  \<and> fst (d_filters d (dl_SchemaId obj) j)"
      "rest = [] \<or> (\<exists>bad post. rest = bad # post \<and> Unmarshal J (dl_Value bad) = None)"
      by blast
    with s o show ?thesis by blast
  qed
  have f: "\<exists>more. download J d schemas projectName s = Some (convertObject J projectName obj # more)"
    if "s \<in> set schemas \<and> d_client d s = Inr (obj # rest) \<and> Unmarshal J (dl_Value obj) = Some j
        \<and> \<not> fst (d_filters d (dl_SchemaId obj) j)"
  proof -
    have "convertLoop J d projectName ([convertObject J projectName obj] @ []) rest
              = [convertObject J projectName obj] @ convertLoop J d projectName [] rest"
      by (rule convertLoop_append_result)
    with that show ?thesis by (simp add: e convertAllObjects_def)
  qed
  from e a b c f show ?thesis by blast
qed

theorem download_entries_witness:
  "download exCodec exDownloader
       [''builtin:tags'', ''builtin:broken'', ''builtin:preset'', ''builtin:none'', ''builtin:missing'']
       ''p'' ''builtin:tags'' = Some [convertObject exCodec ''p'' (exObject ''o1'' ''{}'')]
   \<and> download exCodec exDownloader
       [''builtin:tags'', ''builtin:broken'', ''builtin:preset'', ''builtin:none'', ''builtin:missing'']
       ''p'' ''builtin:broken'' = Some []
   \<and> download exCodec exDownloader
       [''builtin:tags'', ''builtin:broken'', ''builtin:preset'', ''builtin:none'', ''builtin:missing'']
       ''p'' ''builtin:preset'' = Some []
   \<and> download exCodec exDownloader
       [''builtin:tags'', ''builtin:broken'', ''builtin:preset'', ''builtin:none'', ''builtin:missing'']
       ''p'' ''builtin:none'' = None
   \<and> download exCodec exDownloader
       [''builtin:tags'', ''builtin:broken'', ''builtin:preset'', ''builtin:none'', ''builtin:missing'']
       ''p'' ''builtin:missing'' = None"
  using download_entries [where J = exCodec and d = exDownloader and projectName = "''p''"
      and schemas = "[''builtin:tags'', ''builtin:broken'', ''builtin:preset'', ''builtin:none'',
                      ''builtin:missing'']"
      and s = "''builtin:broken''" and obj = "exObject ''o5'' ''not json''" and rest = "[]"
      and objects = "[exObject ''o5'' ''not json'']" and j = "''{}''"]
    download_entries [where J = exCodec and d = exDownloader and projectName = "''p''"
      and schemas = "[''builtin:tags'', ''builtin:broken'', ''builtin:preset'', ''builtin:none'',
                      ''builtin:missing'']"
      and s = "''builtin:preset''" and obj = "exObject ''o6'' ''{preset}''" and rest = "[]"
      and objects = "[exObject ''o6'' ''{preset}'']" and j = "''{preset}''"]
    download_entries [where J = exCodec and d = exDownloader and projectName = "''p''"
      and schemas = "[''builtin:tags'', ''builtin:broken'', ''builtin:preset'', ''builtin:none'',
                      ''builtin:missing'']"
      and s = "''builtin:tags''" and obj = "exObject ''o1'' ''{}''"
      and rest = "[exObject ''o2'' ''{preset}'', exObject ''o3'' ''not json'', exObject ''o4'' ''{}'']"
      and objects = "[exObject ''o1'' ''{}'']" and j = "''{}''"]
  by (simp add: download_defs)


text \<open>
  C3, as stated, fails: a schema whose only object does not parse, and a schema whose
  only object is discarded, are mapped to the empty list; only a schema without objects
  has no entry.
\<close>

theorem download_keeps_empty_results:
  "download exCodec exDownloader [''builtin:broken'', ''builtin:preset'', ''builtin:none'']
     ''p'' ''builtin:broken'' = Some []
   \<and> download exCodec exDownloader [''builtin:broken'', ''builtin:preset'', ''builtin:none'']
     ''p'' ''builtin:preset'' = Some []
   \<and> download exCodec exDownloader [''builtin:broken'', ''builtin:preset'', ''builtin:none'']
     ''p'' ''builtin:none'' = None"
  by (simp add: download_defs)


section \<open>Properties of the delete command\<close>

text \<open>
  C10, as amended. With a non-empty list of environment names and a group that is not
  given or has at least one environment, the environments Delete selects are those
  \<open>FilterByNames\<close> gives on the manifest's full set of environments, whatever the group
  filter gave: the selection succeeds only with that result, and it is the same for any
  two groups for which it succeeds. With a group that is given and has no environment,
  Delete returns the error that the group has no environments, before it looks at the
  names, and runs the deletion for no environment. So the environments Delete runs the
  deletion for are none or those \<open>FilterByNames\<close> gives.
\<close>

theorem Delete_names_override_group:
  assumes "length environmentNames > 0"
  shows "(selectEnvironments D manifest environmentNames environmentGroup = Inr environments
            \<longrightarrow> FilterByNames D (Environments manifest) environmentNames = Inr environments)
       \<and> (selectEnvironments D manifest environmentNames environmentGroup = Inr environments
          \<and> selectEnvironments D manifest environmentNames otherGroup = Inr environments'
            \<longrightarrow> environments' = environments)
       \<and> ((environmentGroup = [] \<or> FilterByGroup D (Environments manifest) environmentGroup \<noteq> [])
            \<longrightarrow> selectEnvironments D manifest environmentNames environmentGroup =
                  (case FilterByNames D (Environments manifest) environmentNames of
                     Inl err \<Rightarrow> Inl (FailedToLoadEnvironments err)
                   | Inr environments2 \<Rightarrow> Inr environments2))
       \<and> (fst (Delete D deploymentManifestPath deletePath environmentNames environmentGroup) = []
          \<or> (\<exists>environments2.
                FilterByNames D
                  (Environments (fst (LoadManifest D (fst (AbsClean D deploymentManifestPath)))))
                  environmentNames = Inr environments2
                \<and> fst (Delete D deploymentManifestPath deletePath environmentNames environmentGroup)
                    = map snd environments2))
       \<and> (environmentGroup \<noteq> [] \<and> FilterByGroup D (Environments manifest) environmentGroup = []
            \<longrightarrow> selectEnvironments D manifest environmentNames environmentGroup
                  = Inl (NoEnvironmentsInGroup environmentGroup))
       \<and> (AbsClean D deploymentManifestPath = (manifestPath', None)
          \<and> AbsClean D deletePath = (deletePath', None)
          \<and> LoadManifest D manifestPath' = (manifest, [])
          \<and> LoadEntriesToDelete D (ReplaceAll D deletePath' ''delete.yaml'' []) ''delete.yaml''
               = (entriesToDelete, [])
            \<longrightarrow> (if environmentGroup \<noteq> []
                      \<and> FilterByGroup D (Environments manifest) environmentGroup = []
                  then Delete D deploymentManifestPath deletePath environmentNames environmentGroup
                         = ([], Some (NoEnvironmentsInGroup environmentGroup))
                  else (case FilterByNames D (Environments manifest) environmentNames of
                          Inl err \<Rightarrow>
                            Delete D deploymentManifestPath deletePath environmentNames
                              environmentGroup = ([], Some (FailedToLoadEnvironments err))
                        | Inr environments2 \<Rightarrow>
                            fst (Delete D deploymentManifestPath deletePath environmentNames
                                   environmentGroup) = map snd environments2)))"
proof (intro conjI impI)
  have sel: "selectEnvironments D m environmentNames g =
      (if g \<noteq> [] \<and> FilterByGroup D (Environments m) g = []
       then Inl (NoEnvironmentsInGroup g)
       else (case FilterByNames D (Environments m) environmentNames of
                     Inl err \<Rightarrow> Inl (FailedToLoadEnvironments err)
                   | Inr environments2 \<Rightarrow> Inr environments2))" for m g
    using assms by (simp add: selectEnvironments_def Let_def)
  have sel_Inr: "selectEnvironments D m environmentNames g = Inr envs \<Longrightarrow>
      FilterByNames D (Environments m) environmentNames = Inr envs" for m g envs
    by (auto simp add: sel split: if_splits sum.splits)
  show "FilterByNames D (Environments manifest) environmentNames = Inr environments"
    if "selectEnvironments D manifest environmentNames environmentGroup = Inr environments"
    using that by (rule sel_Inr)
  show "environments' = environments"
    if "selectEnvironments D manifest environmentNames environmentGroup = Inr environments
          \<and> selectEnvironments D manifest environmentNames otherGroup = Inr environments'"
    using that sel_Inr [of manifest environmentGroup environments]
      sel_Inr [of manifest otherGroup environments'] by simp
  show "selectEnvironments D manifest environmentNames environmentGroup =
                  (case FilterByNames D (Environments manifest) environmentNames of
                     Inl err \<Rightarrow> Inl (FailedToLoadEnvironments err)
                   | Inr environments2 \<Rightarrow> Inr environments2)"
    if "environmentGroup = [] \<or> FilterByGroup D (Environments manifest) environmentGroup \<noteq> []"
    using that by (auto simp add: sel)
  show "fst (Delete D deploymentManifestPath deletePath environmentNames environmentGroup) = []
          \<or> (\<exists>environments2.
                FilterByNames D
                  (Environments (fst (LoadManifest D (fst (AbsClean D deploymentManifestPath)))))
                  environmentNames = Inr environments2
                \<and> fst (Delete D deploymentManifestPath deletePath environmentNames environmentGroup)
                    = map snd environments2)"
    by (auto simp add: Delete_def Let_def split: prod.splits option.splits sum.splits
        dest: sel_Inr)
  show "selectEnvironments D manifest environmentNames environmentGroup
                  = Inl (NoEnvironmentsInGroup environmentGroup)"
    if "environmentGroup \<noteq> [] \<and> FilterByGroup D (Environments manifest) environmentGroup = []"
    using that by (simp add: sel)
  show "if environmentGroup \<noteq> []
                      \<and> FilterByGroup D (Environments manifest) environmentGroup = []
                  then Delete D deploymentManifestPath deletePath environmentNames environmentGroup
                         = ([], Some (NoEnvironmentsInGroup environmentGroup))
                  else (case FilterByNames D (Environments manifest) environmentNames of
                          Inl err \<Rightarrow>
                            Delete D deploymentManifestPath deletePath environmentNames
                              environmentGroup = ([], Some (FailedToLoadEnvironments err))
                        | Inr environments2 \<Rightarrow>
                            fst (Delete D deploymentManifestPath deletePath environmentNames
                                   environmentGroup) = map snd environments2)"
    if "AbsClean D deploymentManifestPath = (manifestPath', None)
          \<and> AbsClean D deletePath = (deletePath', None)
          \<and> LoadManifest D manifestPath' = (manifest, [])
          \<and> LoadEntriesToDelete D (ReplaceAll D deletePath' ''delete.yaml'' []) ''delete.yaml''
               = (entriesToDelete, [])"
    using that by (auto simp add: Delete_def Let_def sel split: sum.splits)
qed


theorem Delete_names_override_group_witness:
  "length [''prod''] > 0
   \<and> FilterByGroup exDeleteDeps exEnvironments ''nonprod''
       = [(''dev'', \<lparr>envName = ''dev'', envGroup = ''nonprod''\<rparr>)]
   \<and> Delete exDeleteDeps ''manifest.yaml'' ''delete.yaml'' [''prod''] ''nonprod''
       = ([\<lparr>envName = ''prod'', envGroup = ''production''\<rparr>], None)
   \<and> Delete exDeleteDeps ''manifest.yaml'' ''delete.yaml'' [''prod''] []
       = ([\<lparr>envName = ''prod'', envGroup = ''production''\<rparr>], None)
   \<and> FilterByGroup exDeleteDeps exEnvironments ''staging'' = []
   \<and> selectEnvironments exDeleteDeps \<lparr>Environments = exEnvironments\<rparr> [''prod''] ''staging''
       = Inl (NoEnvironmentsInGroup ''staging'')"
  using Delete_names_override_group [where environmentNames = "[''prod'']" and D = exDeleteDeps
      and manifest = "\<lparr>Environments = exEnvironments\<rparr>" and environmentGroup = "''nonprod''"
      and environments = "[(''prod'', \<lparr>envName = ''prod'', envGroup = ''production''\<rparr>)]"
      and otherGroup = "[]"
      and environments' = "[(''prod'', \<lparr>envName = ''prod'', envGroup = ''production''\<rparr>)]"
      and deploymentManifestPath = "''manifest.yaml''" and deletePath = "''delete.yaml''"
      and manifestPath' = "''/work/manifest.yaml''" and deletePath' = "''/work/delete.yaml''"
      and entriesToDelete = "()"]
    Delete_names_override_group [where environmentNames = "[''prod'']" and D = exDeleteDeps
      and manifest = "\<lparr>Environments = exEnvironments\<rparr>" and environmentGroup = "''staging''"
      and environments = "[]" and otherGroup = "[]" and environments' = "[]"
      and deploymentManifestPath = "''manifest.yaml''" and deletePath = "''delete.yaml''"
      and manifestPath' = "''/work/manifest.yaml''" and deletePath' = "''/work/delete.yaml''"
      and entriesToDelete = "()"]
  by (simp add: Delete_def selectEnvironments_def deleteConfigs_def exDeleteDeps_def
      exEnvironments_def Let_def)


text \<open>
  C10, as stated, fails when both filters are given and the group has no environment:
  the names alone select the environment \<open>prod\<close>, but with the group \<open>staging\<close>, which no
  environment belongs to, Delete returns an error and acts on no environment.
\<close>

theorem Delete_empty_group_selects_nothing:
  "Delete exDeleteDeps ''manifest.yaml'' ''delete.yaml'' [''prod''] ''staging''
     = ([], Some (NoEnvironmentsInGroup ''staging''))
   \<and> Delete exDeleteDeps ''manifest.yaml'' ''delete.yaml'' [''prod''] []
     = ([\<lparr>envName = ''prod'', envGroup = ''production''\<rparr>], None)
   \<and> FilterByNames exDeleteDeps exEnvironments [''prod'']
     = Inr [(''prod'', \<lparr>envName = ''prod'', envGroup = ''production''\<rparr>)]"
  by (simp add: Delete_def selectEnvironments_def deleteConfigs_def exDeleteDeps_def
      exEnvironments_def Let_def)

end
